theory Spec2Isabelle
  imports Main
begin

section \<open>Strings, printf pieces and the JSON reader\<close>

text \<open>
  An \<open>ist\<close> is a pointer and a length; \<open>IST_NULL\<close> is \<open>None\<close>. C strings are
  character lists without their terminating NUL. \<open>istdup\<close>, \<open>strdup\<close>, \<open>calloc\<close> and
  \<open>memprintf\<close> are taken to succeed; \<open>alloc_trash_chunk\<close>, which every handler tests,
  is a flag of the environment. The trash buffers are taken to be large enough for the
  strings written to them.
\<close>

type_synonym ist = "string option"

definition isttest :: "ist \<Rightarrow> bool" where
  "isttest s = (case s of None \<Rightarrow> False | Some _ \<Rightarrow> True)"

definition dq :: string where
  "dq = [CHR 0x22]"

definition nl :: string where
  "nl = [CHR 0x0A]"

definition sq :: string where
  "sq = [CHR 0x27]"

definition tolower :: "char \<Rightarrow> char" where
  "tolower c =
     (case map_of (zip ''ABCDEFGHIJKLMNOPQRSTUVWXYZ'' ''abcdefghijklmnopqrstuvwxyz'') c of
        None \<Rightarrow> c
      | Some l \<Rightarrow> l)"

text \<open>\<open>isteqi\<close>: same length and the same characters up to ASCII case.\<close>

definition isteqi :: "string \<Rightarrow> string \<Rightarrow> bool" where
  "isteqi a b = (map tolower a = map tolower b)"

text \<open>
  \<open>strncasecmp s1 s2 n\<close> of the C library: at most \<open>n\<close> characters are compared, the
  comparison stops at the first difference or at the end of both strings, and the end of
  a string (its NUL) is smaller than every character. Of the difference it returns, only
  the sign is kept (\<open>-1\<close>, \<open>0\<close> or \<open>1\<close>): the callers test it against zero.
\<close>

fun strncasecmp :: "string \<Rightarrow> string \<Rightarrow> nat \<Rightarrow> int" where
  "strncasecmp s1 s2 0 = 0"
| "strncasecmp [] [] (Suc n) = 0"
| "strncasecmp [] (b # bs) (Suc n) = - 1"
| "strncasecmp (a # as) [] (Suc n) = 1"
| "strncasecmp (a # as) (b # bs) (Suc n) =
     (if tolower a = tolower b then strncasecmp as bs n
      else if (of_char (tolower a) :: nat) < of_char (tolower b) then - 1 else 1)"

function string_of_nat :: "nat \<Rightarrow> string" where
  "string_of_nat n =
     (if n < 10 then [''0123456789'' ! n]
      else string_of_nat (n div 10) @ [''0123456789'' ! (n mod 10)])"
  by pat_completeness auto
termination
  by (relation "measure id") auto

declare string_of_nat.simps [simp del]

text \<open>The conversion \<open>%d\<close> of the printf family.\<close>

definition string_of_int :: "int \<Rightarrow> string" where
  "string_of_int i =
     (if i < 0 then CHR ''-'' # string_of_nat (nat (- i)) else string_of_nat (nat i))"

text \<open>The conversion \<open>%s\<close> of glibc prints a NULL pointer as \<open>(null)\<close>.\<close>

definition pct_s :: "ist \<Rightarrow> string" where
  "pct_s s = (case s of None \<Rightarrow> ''(null)'' | Some x \<Rightarrow> x)"

text \<open>
  What \<open>snprintf(buf, size, "<prefix>%d]", i)\<close> returns: the length of the whole text,
  whether it fits or not.
\<close>

definition snprintf_len :: "string \<Rightarrow> nat \<Rightarrow> nat" where
  "snprintf_len prefix i = length prefix + length (string_of_nat i) + 1"

text \<open>
  The response body is read through mjson (\<open>import/mjson.h\<close>, outside
  \<open>acme.c\<close>). The model gives the body as the JSON value mjson would traverse, and a path
  \<open>$.a.b[i]\<close> as the list of its steps. \<open>mjson_find\<close> answers \<open>MJSON_TOK_INVALID\<close>
  (here \<open>None\<close>) when the path leads nowhere, and \<open>mjson_get_string\<close> answers \<open>-1\<close>
  (here \<open>None\<close>) unless the path leads to a string, whose length it returns.
\<close>

datatype json =
    JNull
  | JTrue
  | JFalse
  | JNum int
  | JStr string
  | JArr "json list"
  | JObj "(string \<times> json) list"

datatype pelem = Key string | Idx nat

fun mjson_walk :: "json \<Rightarrow> pelem list \<Rightarrow> json option" where
  "mjson_walk j [] = Some j"
| "mjson_walk (JObj kvs) (Key k # p) =
     (case map_of kvs k of None \<Rightarrow> None | Some x \<Rightarrow> mjson_walk x p)"
| "mjson_walk (JArr xs) (Idx i # p) =
     (if i < length xs then mjson_walk (xs ! i) p else None)"
| "mjson_walk _ _ = None"

definition mjson_find :: "json option \<Rightarrow> pelem list \<Rightarrow> json option" where
  "mjson_find buf p = (case buf of None \<Rightarrow> None | Some j \<Rightarrow> mjson_walk j p)"

definition mjson_get_string :: "json option \<Rightarrow> pelem list \<Rightarrow> string option" where
  "mjson_get_string buf p =
     (case mjson_find buf p of
        Some (JStr s) \<Rightarrow> Some s
      | _ \<Rightarrow> None)"

text \<open>The integer \<open>mjson_get_string\<close> returns for a lookup.\<close>

definition mjson_ret :: "string option \<Rightarrow> int" where
  "mjson_ret r = (case r of None \<Rightarrow> - 1 | Some s \<Rightarrow> int (length s))"

definition is_object :: "json option \<Rightarrow> bool" where
  "is_object t = (case t of Some (JObj _) \<Rightarrow> True | _ \<Rightarrow> False)"

section \<open>The data of a renewal\<close>

datatype acme_st =
    ACME_RESSOURCES
  | ACME_NEWNONCE
  | ACME_CHKACCOUNT
  | ACME_NEWACCOUNT
  | ACME_NEWORDER
  | ACME_AUTH
  | ACME_CHALLENGE
  | ACME_CHKCHALLENGE
  | ACME_FINALIZE
  | ACME_CHKORDER
  | ACME_CERTIFICATE
  | ACME_END

datatype http_st = ACME_HTTP_REQ | ACME_HTTP_RES

datatype http_meth = HTTP_METH_GET | HTTP_METH_HEAD | HTTP_METH_POST

type_synonym http_hdrs = "(string \<times> string) list"

text \<open>
  An HTTP client handle: the request it was created for and the response it has received.
  \<open>res_hdrs\<close> is a NULL pointer (\<open>None\<close>) as long as no header was received.
  \<open>res_buf\<close> is the body as bytes, \<open>res_json\<close> the same body as mjson reads it.
\<close>

record httpclient =
  req_meth :: http_meth
  req_url :: ist
  req_hdrs :: "http_hdrs option"
  req_payload :: ist
  res_status :: int
  res_hdrs :: "http_hdrs option"
  res_buf :: string
  res_json :: "json option"

text \<open>One authorization; the \<open>next\<close> pointer is the position in the list \<open>auths\<close>.\<close>

record acme_auth =
  auth :: ist
  chall :: ist
  token :: ist

type_synonym pkey = nat

type_synonym ckch_inst = nat

record ckch_data =
  key :: "pkey option"
  cert :: "string option"

record ckch_store =
  path :: string
  data :: ckch_data
  insts :: "ckch_inst list"
  acme_id :: "string option"
  acme_domains :: "string list option"

datatype key_type = EVP_PKEY_RSA | EVP_PKEY_EC | EVP_PKEY_OTHER

record acme_cfg =
  name :: string
  uri :: string
  challenge :: string
  account_contact :: ist
  account_pkey :: pkey
  keytype :: key_type
  bits :: int
  curves :: int

datatype nid = NID_subject_alt_name

datatype md = EVP_sha256

text \<open>A PKCS\#10 request, as the calls that built it: key, subject, extensions, signature.\<close>

record x509_req =
  x_pubkey :: pkey
  x_subject :: "(string \<times> string) list"
  x_exts :: "(nid \<times> string) list"
  x_sig :: "(md \<times> pkey) option"

record acme_ctx =
  state :: acme_st
  http_state :: http_st
  retries :: int
  cfg :: acme_cfg
  store :: ckch_store
  req :: "x509_req option"
  hc :: "httpclient option"
  nonce :: ist
  kid :: ist
  ord_url :: ist
  finalize :: ist
  certificate :: ist
  newNonce :: ist
  newAccount :: ist
  newOrder :: ist
  auths :: "acme_auth list"
  next_auth :: "nat option"

text \<open>
  The process-wide state the renewal shares with the rest of the proxy: the spinlock
  \<open>ckch_lock\<close> (\<open>True\<close> when held) and the tree of certificate stores, indexed by path.
\<close>

record globals =
  ckch_lock :: bool
  ckchs_tree :: "string \<Rightarrow> ckch_store option"

datatype keygen_result =
    KG_new_id_failed
  | KG_init_failed
  | KG_param_failed
  | KG_keygen_failed
  | KG_ok pkey

text \<open>
  What one invocation cannot decide by itself, because it is decided by code outside
  \<open>acme.c\<close> (the memory pools, the HTTP client, the JWS signer, OpenSSL and the
  certificate store): whether \<open>alloc_trash_chunk\<close> succeeds; whether the HTTP client
  can be created, filled and started; what the JWS functions answer; the DER encoding of
  the CSR and its base64url form; what loading a PEM into a store does; what rebuilding
  one instance answers; the outcome of key generation; whether \<open>X509V3_EXT_conf_nid\<close>
  accepts a value for the subjectAltName extension; and whether \<open>task_new_anywhere\<close>
  returns a task.
\<close>

record env =
  trash_ok :: bool
  http_ok :: bool
  jws_alg_none :: "pkey \<Rightarrow> bool"
  jws_flattened :: "string \<Rightarrow> ist \<Rightarrow> ist \<Rightarrow> pkey \<Rightarrow> ist \<Rightarrow> string"
  i2d_X509_REQ :: "x509_req option \<Rightarrow> int \<times> string"
  a2base64url :: "string \<Rightarrow> nat \<Rightarrow> int \<times> string"
  load_pem :: "string \<Rightarrow> string \<Rightarrow> ckch_data \<Rightarrow> int \<times> string option \<times> ckch_data"
  ckch_inst_rebuild :: "ckch_store \<Rightarrow> ckch_inst \<Rightarrow> string + ckch_inst"
  keygen :: "acme_cfg \<Rightarrow> keygen_result"
  san_conf_ok :: "string \<Rightarrow> bool"
  task_ok :: bool

section \<open>The HTTP step\<close>

text \<open>
  \<open>acme_http_req\<close>: \<open>httpclient_new\<close>, \<open>httpclient_req_gen\<close> and
  \<open>httpclient_start\<close> all lead to the same label when they fail.
\<close>

definition acme_http_req ::
  "env \<Rightarrow> acme_ctx \<Rightarrow> ist \<Rightarrow> http_meth \<Rightarrow> http_hdrs option \<Rightarrow> ist \<Rightarrow> int \<times> acme_ctx" where
  "acme_http_req e ctx url meth hdrs payload =
     (if http_ok e
      then (0, ctx\<lparr>hc := Some \<lparr>req_meth = meth, req_url = url, req_hdrs = hdrs,
                                req_payload = payload, res_status = 0, res_hdrs = None,
                                res_buf = [], res_json = None\<rparr>\<rparr>)
      else (1, ctx\<lparr>hc := None\<rparr>))"

text \<open>
  The completion callback \<open>acme_httpclient_end\<close>, run once the client has stored the
  response in the handle: it flips the phase from REQ to RES; the task is then woken.
\<close>

definition acme_httpclient_end :: "acme_ctx \<Rightarrow> acme_ctx" where
  "acme_httpclient_end ctx =
     (if http_state ctx = ACME_HTTP_REQ then ctx\<lparr>http_state := ACME_HTTP_RES\<rparr> else ctx)"

definition httpclient_response ::
  "int \<Rightarrow> http_hdrs option \<Rightarrow> string \<Rightarrow> json option \<Rightarrow> acme_ctx \<Rightarrow> acme_ctx" where
  "httpclient_response st hs buf js ctx =
     acme_httpclient_end
       (ctx\<lparr>hc := (case hc ctx of
                     None \<Rightarrow> None
                   | Some h \<Rightarrow> Some (h\<lparr>res_status := st, res_hdrs := hs,
                                        res_buf := buf, res_json := js\<rparr>))\<rparr>)"

definition acme_jws_payload ::
  "env \<Rightarrow> string \<Rightarrow> ist \<Rightarrow> ist \<Rightarrow> pkey \<Rightarrow> ist \<Rightarrow> string option
     \<Rightarrow> int \<times> string option \<times> string" where
  "acme_jws_payload e req_in nce url pk k errmsg =
     (if trash_ok e then
        (if jws_alg_none e pk then (1, Some ''couldn't chose a JWK algorithm'', [])
         else
           (let out = jws_flattened e req_in nce url pk k
            in if length out = 0 then (1, errmsg, out) else (0, errmsg, out)))
      else (1, Some ''out of memory'', []))"

text \<open>
  The header loop of the response handlers, for one header name: every header of that name
  frees the stored value and stores a copy of its own, so the last one stays.
\<close>

fun hdr_scan :: "string \<Rightarrow> http_hdrs \<Rightarrow> ist \<Rightarrow> ist" where
  "hdr_scan nm [] cur = cur"
| "hdr_scan nm (h # hs) cur = hdr_scan nm hs (if isteqi (fst h) nm then Some (snd h) else cur)"

text \<open>
  The two lookups of the error branch: the value of \<open>ret\<close> after them (that of the second
  lookup) and the contents of \<open>t1\<close> and \<open>t2\<close>, empty when the lookup failed.
\<close>

definition res_error_strings ::
  "httpclient \<Rightarrow> pelem list \<Rightarrow> pelem list \<Rightarrow> int \<times> string \<times> string" where
  "res_error_strings h pd pt =
     (let r1 = mjson_get_string (res_json h) pd;
          r2 = mjson_get_string (res_json h) pt
      in (mjson_ret r2,
          (case r1 of None \<Rightarrow> [] | Some s \<Rightarrow> s),
          (case r2 of None \<Rightarrow> [] | Some s \<Rightarrow> s)))"

definition invalid_status_msg :: "int \<Rightarrow> string \<Rightarrow> string \<Rightarrow> string \<Rightarrow> string" where
  "invalid_status_msg st what t1 t2 =
     (if t2 \<noteq> [] \<and> t1 \<noteq> []
      then ''invalid HTTP status code '' @ string_of_int st @ '' when getting '' @ what
             @ '': '' @ dq @ t1 @ dq @ '' ('' @ t2 @ '')''
      else ''invalid HTTP status code '' @ string_of_int st @ '' when getting '' @ what)"

definition bad_status :: "httpclient \<Rightarrow> bool" where
  "bad_status h = (res_status h < 200 \<or> 300 \<le> res_status h)"

section \<open>The response handlers\<close>

text \<open>
  Every handler returns \<open>(ret, errmsg, ctx)\<close>: the integer it returns, the message
  \<open>*errmsg\<close> holds afterwards, and the context as it leaves it. A handler that
  dereferences a NULL pointer has no result (\<open>None\<close>).
\<close>

definition acme_directory ::
  "acme_ctx \<Rightarrow> string option \<Rightarrow> int \<times> string option \<times> acme_ctx" where
  "acme_directory ctx errmsg =
     (let err = (\<lambda>m c. (1, m, c\<lparr>hc := None, newNonce := None, newAccount := None,
                                   newOrder := None\<rparr>))
      in case hc ctx of
        None \<Rightarrow> err errmsg ctx
      | Some h \<Rightarrow>
          if res_status h \<noteq> 200
          then err (Some (''invalid HTTP status code '' @ string_of_int (res_status h)
                           @ '' when getting directory URL'')) ctx
          else
            (let r1 = mjson_get_string (res_json h) [Key ''newNonce'']
             in if mjson_ret r1 \<le> 0
                then err (Some ''couldn't get newNonce URL from the directory URL'') ctx
                else
                  (let c1 = ctx\<lparr>newNonce := r1\<rparr>;
                       r2 = mjson_get_string (res_json h) [Key ''newAccount'']
                   in if mjson_ret r2 \<le> 0
                      then err (Some ''couldn't get newAccount URL from the directory URL'') c1
                      else
                        (let c2 = c1\<lparr>newAccount := r2\<rparr>;
                             r3 = mjson_get_string (res_json h) [Key ''newOrder'']
                         in if mjson_ret r3 \<le> 0
                            then err (Some ''couldn't get newOrder URL from the directory URL'') c2
                            else (0, errmsg, c2\<lparr>newOrder := r3, hc := None\<rparr>)))))"

definition acme_nonce ::
  "acme_ctx \<Rightarrow> string option \<Rightarrow> (int \<times> string option \<times> acme_ctx) option" where
  "acme_nonce ctx errmsg =
     (case hc ctx of
        None \<Rightarrow> Some (1, errmsg, ctx\<lparr>hc := None\<rparr>)
      | Some h \<Rightarrow>
          if bad_status h
          then Some (1, Some (''invalid HTTP status code '' @ string_of_int (res_status h)
                               @ '' when getting Nonce URL''), ctx\<lparr>hc := None\<rparr>)
          else
            (case res_hdrs h of
               None \<Rightarrow> None
             | Some hs \<Rightarrow>
                 Some (0, errmsg,
                       ctx\<lparr>nonce := hdr_scan ''Replay-Nonce'' hs (nonce ctx), hc := None\<rparr>)))"

definition acme_res_account ::
  "env \<Rightarrow> acme_ctx \<Rightarrow> bool \<Rightarrow> string option \<Rightarrow> (int \<times> string option \<times> acme_ctx) option" where
  "acme_res_account e ctx newaccount errmsg =
     (case hc ctx of
        None \<Rightarrow> Some (1, errmsg, ctx\<lparr>hc := None\<rparr>)
      | Some h \<Rightarrow>
          if trash_ok e then
            (case res_hdrs h of
               None \<Rightarrow> None
             | Some hs \<Rightarrow>
                 (let c1 = ctx\<lparr>kid := hdr_scan ''Location'' hs (kid ctx),
                               nonce := hdr_scan ''Replay-Nonce'' hs (nonce ctx)\<rparr>
                  in if bad_status h then
                       (case res_error_strings h [Key ''detail''] [Key ''type''] of
                          (ret, t1, t2) \<Rightarrow>
                            if newaccount = False
                               \<and> t2 = ''urn:ietf:params:acme:error:accountDoesNotExist''
                            then Some (0, errmsg, c1\<lparr>hc := None\<rparr>)
                            else Some (ret,
                                       Some (invalid_status_msg (res_status h) ''Account URL'' t1 t2),
                                       c1\<lparr>hc := None\<rparr>))
                     else Some (0, errmsg, c1\<lparr>hc := None\<rparr>)))
          else Some (1, errmsg, ctx\<lparr>hc := None\<rparr>))"

lemma snprintf_len_digits: "4 \<le> length (string_of_nat i) \<longleftrightarrow> 1000 \<le> i"
  apply (subst string_of_nat.simps)
  apply (subst string_of_nat.simps)
  apply (subst string_of_nat.simps)
  apply (subst string_of_nat.simps)
  apply (auto simp: Let_def)
  done

text \<open>
  The loop of \<open>acme_res_neworder\<close> over \<open>$.authorizations[i]\<close>. The path is printed
  into a buffer of 22 bytes. Each URL found becomes a new head of the list, and the cursor
  \<open>next_auth\<close> points to it. \<open>ret\<close> is the function's variable, which the loop
  overwrites with each lookup.
\<close>

function neworder_auths ::
  "json option \<Rightarrow> nat \<Rightarrow> int \<Rightarrow> string option \<Rightarrow> acme_ctx
     \<Rightarrow> bool \<times> int \<times> string option \<times> acme_ctx" where
  "neworder_auths buf i ret errmsg ctx =
     (if 22 \<le> snprintf_len ''$.authorizations['' i
      then (False, ret, Some ''couldn't loop on authorizations during newOrder'', ctx)
      else
        (case mjson_get_string buf [Key ''authorizations'', Idx i] of
           None \<Rightarrow> (True, - 1, errmsg, ctx)
         | Some u \<Rightarrow>
             neworder_auths buf (Suc i) (int (length u)) errmsg
               (ctx\<lparr>auths := \<lparr>auth = Some u, chall = None, token = None\<rparr> # auths ctx,
                     next_auth := Some 0\<rparr>)))"
  by pat_completeness auto
termination
  by (relation "measure (\<lambda>(buf, i, ret, errmsg, ctx). 1000 - i)")
     (auto simp: snprintf_len_def snprintf_len_digits)

declare neworder_auths.simps [simp del]

definition acme_res_neworder ::
  "env \<Rightarrow> acme_ctx \<Rightarrow> string option \<Rightarrow> (int \<times> string option \<times> acme_ctx) option" where
  "acme_res_neworder e ctx errmsg =
     (case hc ctx of
        None \<Rightarrow> Some (1, errmsg, ctx\<lparr>hc := None\<rparr>)
      | Some h \<Rightarrow>
          if trash_ok e then
            (case res_hdrs h of
               None \<Rightarrow> None
             | Some hs \<Rightarrow>
                 (let c1 = ctx\<lparr>nonce := hdr_scan ''Replay-Nonce'' hs (nonce ctx),
                               ord_url := hdr_scan ''Location'' hs (ord_url ctx)\<rparr>
                  in if bad_status h then
                       (case res_error_strings h [Key ''detail''] [Key ''type''] of
                          (ret, t1, t2) \<Rightarrow>
                            Some (ret,
                                  Some (invalid_status_msg (res_status h) ''newOrder URL'' t1 t2),
                                  c1\<lparr>hc := None\<rparr>))
                     else if isttest (ord_url c1) then
                       (case neworder_auths (res_json h) 0 1 errmsg c1 of
                          (done, ret, m, c2) \<Rightarrow>
                            if done then
                              (let r = mjson_get_string (res_json h) [Key ''finalize'']
                               in if mjson_ret r \<le> 0
                                  then Some (mjson_ret r, Some ''couldn't find the finalize URL'',
                                             c2\<lparr>hc := None\<rparr>)
                                  else Some (0, m, c2\<lparr>finalize := r, hc := None\<rparr>))
                            else Some (ret, m, c2\<lparr>hc := None\<rparr>))
                     else Some (1, Some ''couldn't get an order Location during newOrder'',
                                c1\<lparr>hc := None\<rparr>)))
          else Some (1, errmsg, ctx\<lparr>hc := None\<rparr>))"

text \<open>
  The loop of \<open>acme_res_auth\<close> over \<open>$.challenges[i]\<close>, on the authorization \<open>a\<close>
  the handler was given (\<open>None\<close> for a NULL pointer). The path is printed into a buffer
  of 18 bytes. The loop declares a \<open>ret\<close> of its own, so the function's \<open>ret\<close> is
  still 1 at every \<open>goto error\<close>; leaving the loop by \<open>break\<close> leads to \<open>ret = 0\<close>.
  The type of an entry is compared with \<open>strncasecmp(cfg->challenge, type, len(type))\<close>.
\<close>

function auth_challenges ::
  "json option \<Rightarrow> string \<Rightarrow> string option \<Rightarrow> nat \<Rightarrow> acme_auth option
     \<Rightarrow> (int \<times> string option \<times> acme_auth option) option" where
  "auth_challenges buf cfg_chall errmsg i a =
     (if 18 \<le> snprintf_len ''$.challenges['' i then Some (1, errmsg, a)
      else
        (case mjson_find buf [Key ''challenges'', Idx i] of
           None \<Rightarrow> Some (0, errmsg, a)
         | Some tok \<Rightarrow>
             (case mjson_get_string (Some tok) [Key ''type''] of
                None \<Rightarrow>
                  (case a of
                     None \<Rightarrow> None
                   | Some au \<Rightarrow>
                       Some (1, Some (''couldn't get a challenge type in challenges[''
                                       @ string_of_nat i @ ''] from Authorization URL ''
                                       @ dq @ pct_s (auth au) @ dq), a))
              | Some ty \<Rightarrow>
                  if strncasecmp cfg_chall ty (length ty) \<noteq> 0
                  then auth_challenges buf cfg_chall errmsg (Suc i) a
                  else
                    (case a of
                       None \<Rightarrow> None
                     | Some au \<Rightarrow>
                         (case mjson_get_string (Some tok) [Key ''url''] of
                            None \<Rightarrow>
                              Some (1, Some (''couldn't get a challenge URL in challenges[''
                                              @ string_of_nat i @ ''] from Authorization URL ''
                                              @ dq @ pct_s (auth au) @ dq), a)
                          | Some u \<Rightarrow>
                              (case mjson_get_string (Some tok) [Key ''token''] of
                                 None \<Rightarrow>
                                   Some (1, Some (''couldn't get a token in challenges[''
                                                   @ string_of_nat i @ ''] from Authorization URL ''
                                                   @ dq @ pct_s (auth au) @ dq),
                                         Some (au\<lparr>chall := Some u\<rparr>))
                               | Some t \<Rightarrow>
                                   Some (0, errmsg,
                                         Some (au\<lparr>chall := Some u, token := Some t\<rparr>))))))))"
  by pat_completeness auto
termination
  by (relation "measure (\<lambda>(buf, cfg_chall, errmsg, i, a). 1000 - i)")
     (auto simp: snprintf_len_def snprintf_len_digits)

declare auth_challenges.simps [simp del]

text \<open>The authorization a cursor points to, and the cursor of its \<open>next\<close> field.\<close>

definition auth_at :: "acme_ctx \<Rightarrow> nat option \<Rightarrow> acme_auth option" where
  "auth_at ctx p =
     (case p of
        None \<Rightarrow> None
      | Some i \<Rightarrow> if i < length (auths ctx) then Some (auths ctx ! i) else None)"

definition auth_store :: "acme_ctx \<Rightarrow> nat option \<Rightarrow> acme_auth option \<Rightarrow> acme_ctx" where
  "auth_store ctx p a =
     (case p of
        None \<Rightarrow> ctx
      | Some i \<Rightarrow> (case a of None \<Rightarrow> ctx | Some au \<Rightarrow> ctx\<lparr>auths := (auths ctx)[i := au]\<rparr>))"

definition auth_next :: "acme_ctx \<Rightarrow> nat option \<Rightarrow> nat option" where
  "auth_next ctx p =
     (case p of
        None \<Rightarrow> None
      | Some i \<Rightarrow> if Suc i < length (auths ctx) then Some (Suc i) else None)"

definition acme_res_auth ::
  "env \<Rightarrow> acme_ctx \<Rightarrow> nat option \<Rightarrow> string option
     \<Rightarrow> (int \<times> string option \<times> acme_ctx) option" where
  "acme_res_auth e ctx p errmsg =
     (case hc ctx of
        None \<Rightarrow> Some (1, errmsg, ctx\<lparr>hc := None\<rparr>)
      | Some h \<Rightarrow>
          if trash_ok e then
            (case res_hdrs h of
               None \<Rightarrow> None
             | Some hs \<Rightarrow>
                 (let c1 = ctx\<lparr>nonce := hdr_scan ''Replay-Nonce'' hs (nonce ctx)\<rparr>
                  in if bad_status h then
                       (case res_error_strings h [Key ''detail''] [Key ''type''] of
                          (ret, t1, t2) \<Rightarrow>
                            Some (ret,
                                  Some (invalid_status_msg (res_status h) ''Authorization URL'' t1 t2),
                                  c1\<lparr>hc := None\<rparr>))
                     else
                       (case auth_challenges (res_json h) (challenge (cfg ctx)) errmsg 0
                               (auth_at c1 p) of
                          None \<Rightarrow> None
                        | Some (ret, m, a) \<Rightarrow> Some (ret, m, (auth_store c1 p a)\<lparr>hc := None\<rparr>))))
          else Some (1, errmsg, ctx\<lparr>hc := None\<rparr>))"

definition acme_res_challenge ::
  "env \<Rightarrow> acme_ctx \<Rightarrow> nat option \<Rightarrow> string option
     \<Rightarrow> (int \<times> string option \<times> acme_ctx) option" where
  "acme_res_challenge e ctx p errmsg =
     (case hc ctx of
        None \<Rightarrow> Some (1, errmsg, ctx\<lparr>hc := None\<rparr>)
      | Some h \<Rightarrow>
          if trash_ok e then
            (case res_hdrs h of
               None \<Rightarrow> None
             | Some hs \<Rightarrow>
                 (let c1 = ctx\<lparr>nonce := hdr_scan ''Replay-Nonce'' hs (nonce ctx)\<rparr>
                  in if bad_status h \<or> is_object (mjson_find (res_json h) [Key ''error''])
                     then
                       (case res_error_strings h [Key ''error'', Key ''detail'']
                               [Key ''error'', Key ''type''] of
                          (ret, t1, t2) \<Rightarrow>
                            Some (ret,
                                  Some (if t2 \<noteq> [] \<and> t1 \<noteq> []
                                        then ''error when when getting Challenge URL: '' @ dq @ t1
                                               @ dq @ '' ('' @ t2 @ '') (HTTP status code ''
                                               @ string_of_int (res_status h) @ '')''
                                        else ''error when getting Challenge URL (HTTP status code ''
                                               @ string_of_int (res_status h) @ '')''),
                                  c1\<lparr>hc := None\<rparr>))
                     else Some (0, errmsg, c1\<lparr>hc := None\<rparr>)))
          else Some (1, errmsg, ctx\<lparr>hc := None\<rparr>))"

definition acme_res_finalize ::
  "env \<Rightarrow> acme_ctx \<Rightarrow> string option \<Rightarrow> (int \<times> string option \<times> acme_ctx) option" where
  "acme_res_finalize e ctx errmsg =
     (case hc ctx of
        None \<Rightarrow> Some (1, errmsg, ctx\<lparr>hc := None\<rparr>)
      | Some h \<Rightarrow>
          if trash_ok e then
            (case res_hdrs h of
               None \<Rightarrow> None
             | Some hs \<Rightarrow>
                 (let c1 = ctx\<lparr>nonce := hdr_scan ''Replay-Nonce'' hs (nonce ctx)\<rparr>
                  in if bad_status h then
                       (case res_error_strings h [Key ''detail''] [Key ''type''] of
                          (ret, t1, t2) \<Rightarrow>
                            Some (ret,
                                  Some (invalid_status_msg (res_status h) ''Finalize URL'' t1 t2),
                                  c1\<lparr>hc := None\<rparr>))
                     else Some (0, errmsg, c1\<lparr>hc := None\<rparr>)))
          else Some (1, errmsg, ctx\<lparr>hc := None\<rparr>))"

text \<open>
  \<open>acme_res_chkorder\<close> is the one handler that tests the header pointer before it
  reads the headers.
\<close>

definition acme_res_chkorder ::
  "env \<Rightarrow> acme_ctx \<Rightarrow> string option \<Rightarrow> int \<times> string option \<times> acme_ctx" where
  "acme_res_chkorder e ctx errmsg =
     (case hc ctx of
        None \<Rightarrow> (1, errmsg, ctx\<lparr>hc := None\<rparr>)
      | Some h \<Rightarrow>
          if trash_ok e then
            (let c1 = (case res_hdrs h of
                         None \<Rightarrow> ctx
                       | Some hs \<Rightarrow> ctx\<lparr>nonce := hdr_scan ''Replay-Nonce'' hs (nonce ctx)\<rparr>)
             in if bad_status h then
                  (case res_error_strings h [Key ''detail''] [Key ''type''] of
                     (ret, t1, t2) \<Rightarrow>
                       (ret, Some (invalid_status_msg (res_status h) ''Order URL'' t1 t2),
                        c1\<lparr>hc := None\<rparr>))
                else
                  (case mjson_get_string (res_json h) [Key ''certificate''] of
                     None \<Rightarrow> (- 1, Some ''couldn't get a the certificate URL'', c1\<lparr>hc := None\<rparr>)
                   | Some u \<Rightarrow>
                       (let c2 = c1\<lparr>certificate := Some u\<rparr>
                        in case mjson_get_string (res_json h) [Key ''status''] of
                             None \<Rightarrow>
                               (- 1, Some ''couldn't get a the Order status'', c2\<lparr>hc := None\<rparr>)
                           | Some s \<Rightarrow>
                               if strncasecmp ''valid'' s (length s) \<noteq> 0
                               then (int (length s), Some (''order status: '' @ s),
                                     c2\<lparr>hc := None\<rparr>)
                               else (0, errmsg, c2\<lparr>hc := None\<rparr>))))
          else (1, errmsg, ctx\<lparr>hc := None\<rparr>))"

section \<open>The request builders\<close>

definition jose_hdrs :: "http_hdrs option" where
  "jose_hdrs = Some [(''Content-Type'', ''application/jose+json'')]"

text \<open>The value an \<open>int\<close> has once stored in a \<open>size_t\<close> of 64 bits.\<close>

definition size_t_of :: "int \<Rightarrow> nat" where
  "size_t_of r = nat (r mod 2 ^ 64)"

text \<open>
  \<open>acme_req_finalize\<close>. The length \<open>i2d_X509_REQ\<close> returns is kept in a \<open>size_t\<close>;
  \<open>ret\<close> holds what \<open>a2base64url\<close> returned until the last assignment. Every path,
  the successful one too, passes the \<open>memprintf\<close> under the label \<open>error\<close>.
\<close>

definition acme_req_finalize ::
  "env \<Rightarrow> acme_ctx \<Rightarrow> string option \<Rightarrow> int \<times> string option \<times> acme_ctx" where
  "acme_req_finalize e ctx errmsg =
     (let m = Some ''couldn't request the finalize URL''
      in if trash_ok e then
           (let der = snd (i2d_X509_REQ e (req ctx));
                len = size_t_of (fst (i2d_X509_REQ e (req ctx)))
            in if len \<le> 0 then (1, m, ctx)
               else
                 (case a2base64url e der len of
                    (ret, csr) \<Rightarrow>
                      if ret \<le> 0 then (ret, m, ctx)
                      else
                        (let req_in = ''{ '' @ dq @ ''csr'' @ dq @ '': '' @ dq
                                        @ take (nat ret) csr @ dq @ '' }''
                         in case acme_jws_payload e req_in (nonce ctx) (finalize ctx)
                                   (account_pkey (cfg ctx)) (kid ctx) errmsg of
                              (r, m1, out) \<Rightarrow>
                                if r \<noteq> 0 then (ret, m, ctx)
                                else
                                  (case acme_http_req e ctx (finalize ctx) HTTP_METH_POST
                                          jose_hdrs (Some out) of
                                     (r2, c) \<Rightarrow> if r2 \<noteq> 0 then (ret, m, c) else (0, m, c)))))
         else (1, m, ctx))"

definition acme_req_challenge ::
  "env \<Rightarrow> acme_ctx \<Rightarrow> acme_auth option \<Rightarrow> string option
     \<Rightarrow> (int \<times> string option \<times> acme_ctx) option" where
  "acme_req_challenge e ctx a errmsg =
     (let m = Some ''couldn't generate the Challenge request''
      in if trash_ok e then
           (case a of
              None \<Rightarrow> None
            | Some au \<Rightarrow>
                (case acme_jws_payload e ''{}'' (nonce ctx) (chall au)
                        (account_pkey (cfg ctx)) (kid ctx) errmsg of
                   (r, m1, out) \<Rightarrow>
                     if r \<noteq> 0 then Some (1, m, ctx)
                     else
                       (case acme_http_req e ctx (chall au) HTTP_METH_POST jose_hdrs (Some out) of
                          (r2, c) \<Rightarrow> if r2 \<noteq> 0 then Some (1, m, c) else Some (0, m, c))))
         else Some (1, m, ctx))"

definition acme_req_auth ::
  "env \<Rightarrow> acme_ctx \<Rightarrow> acme_auth option \<Rightarrow> string option
     \<Rightarrow> (int \<times> string option \<times> acme_ctx) option" where
  "acme_req_auth e ctx a errmsg =
     (let m = Some ''couldn't generate the Authorizations request''
      in if trash_ok e then
           (case a of
              None \<Rightarrow> None
            | Some au \<Rightarrow>
                (case acme_jws_payload e [] (nonce ctx) (auth au)
                        (account_pkey (cfg ctx)) (kid ctx) errmsg of
                   (r, m1, out) \<Rightarrow>
                     if r \<noteq> 0 then Some (1, m, ctx)
                     else
                       (case acme_http_req e ctx (auth au) HTTP_METH_POST jose_hdrs (Some out) of
                          (r2, c) \<Rightarrow> if r2 \<noteq> 0 then Some (1, m, c) else Some (0, m, c))))
         else Some (1, m, ctx))"

text \<open>The identifiers of the newOrder payload; only the first entry has no comma before it.\<close>

fun neworder_ids :: "nat \<Rightarrow> string list \<Rightarrow> string" where
  "neworder_ids i [] = []"
| "neworder_ids i (s # ss) =
     (if i = 0 then [] else '','') @ ''{ '' @ dq @ ''type'' @ dq @ '': '' @ dq @ ''dns'' @ dq
       @ '',  '' @ dq @ ''value'' @ dq @ '': '' @ dq @ s @ dq @ '' }''
       @ neworder_ids (Suc i) ss"

definition acme_req_neworder ::
  "env \<Rightarrow> acme_ctx \<Rightarrow> string option \<Rightarrow> int \<times> string option \<times> acme_ctx" where
  "acme_req_neworder e ctx errmsg =
     (let m = Some ''couldn't generate the newOrder request''
      in if trash_ok e then
           (case acme_domains (store ctx) of
              None \<Rightarrow> (1, m, ctx)
            | Some san \<Rightarrow>
                (let req_in = ''{ '' @ dq @ ''identifiers'' @ dq @ '': [ '' @ neworder_ids 0 san
                                @ '' ] }''
                 in case acme_jws_payload e req_in (nonce ctx) (newOrder ctx)
                           (account_pkey (cfg ctx)) (kid ctx) errmsg of
                      (r, m1, out) \<Rightarrow>
                        if r \<noteq> 0 then (1, m, ctx)
                        else
                          (case acme_http_req e ctx (newOrder ctx) HTTP_METH_POST jose_hdrs
                                  (Some out) of
                             (r2, c) \<Rightarrow> if r2 \<noteq> 0 then (1, m, c) else (0, m, c))))
         else (1, m, ctx))"

definition accountreq :: string where
  "accountreq = ''{'' @ nl @ ''    '' @ dq @ ''termsOfServiceAgreed'' @ dq @ '': true,'' @ nl
                 @ ''    '' @ dq @ ''onlyReturnExisting'' @ dq @ '':   true'' @ nl @ ''}'' @ nl"

definition newaccountreq :: "ist \<Rightarrow> string" where
  "newaccountreq contact =
     ''{'' @ nl @ ''    '' @ dq @ ''termsOfServiceAgreed'' @ dq @ '': true,'' @ nl
       @ ''    '' @ dq @ ''contact'' @ dq @ '': ['' @ nl
       @ ''        '' @ dq @ ''mailto:'' @ pct_s contact @ dq @ nl
       @ ''    ]'' @ nl @ ''}'' @ nl"

definition acme_req_account ::
  "env \<Rightarrow> acme_ctx \<Rightarrow> bool \<Rightarrow> string option \<Rightarrow> int \<times> string option \<times> acme_ctx" where
  "acme_req_account e ctx newaccount errmsg =
     (let m = Some ''couldn't generate the newAccount request''
      in if trash_ok e then
           (let req_in = (if newaccount then newaccountreq (account_contact (cfg ctx))
                          else accountreq)
            in case acme_jws_payload e req_in (nonce ctx) (newAccount ctx)
                      (account_pkey (cfg ctx)) (kid ctx) errmsg of
                 (r, m1, out) \<Rightarrow>
                   if r \<noteq> 0 then (1, m, ctx)
                   else
                     (case acme_http_req e ctx (newAccount ctx) HTTP_METH_POST jose_hdrs
                             (Some out) of
                        (r2, c) \<Rightarrow> if r2 \<noteq> 0 then (1, m, c) else (0, m, c)))
         else (1, m, ctx))"

section \<open>The hot-swap installer and the certificate response\<close>

text \<open>
  Modelled from the spec: the spinlock macros \<open>HA_SPIN_TRYLOCK\<close> and
  \<open>HA_SPIN_UNLOCK\<close> (the thread layer, outside \<open>acme.c\<close>). The try-lock
  fails, returning non-zero and changing nothing, when the lock is already held, and
  takes the lock otherwise; the unlock releases the lock, whoever holds it.
\<close>

definition HA_SPIN_TRYLOCK :: "globals \<Rightarrow> int \<times> globals" where
  "HA_SPIN_TRYLOCK g = (if ckch_lock g then (1, g) else (0, g\<lparr>ckch_lock := True\<rparr>))"

definition HA_SPIN_UNLOCK :: "globals \<Rightarrow> globals" where
  "HA_SPIN_UNLOCK g = g\<lparr>ckch_lock := False\<rparr>"

text \<open>
  Modelled from the spec: \<open>ckchs_lookup\<close> and \<open>ckch_store_replace\<close> (the certificate
  store, outside \<open>acme.c\<close>). The lookup finds the live entry by path; the
  replacement removes the live entry from the index and inserts the new one.
\<close>

definition ckchs_lookup :: "globals \<Rightarrow> string \<Rightarrow> ckch_store option" where
  "ckchs_lookup g p = ckchs_tree g p"

definition ckch_store_replace :: "ckch_store \<Rightarrow> ckch_store \<Rightarrow> globals \<Rightarrow> globals" where
  "ckch_store_replace old new g =
     g\<lparr>ckchs_tree := ((ckchs_tree g)(path old := None))(path new := Some new)\<rparr>"

text \<open>
  The loop of \<open>acme_update_certificate\<close> over the instances of the live entry: each is
  rebuilt against the new store and the new instance is appended to the new store's list.
  The result says whether the loop ran to its end.
\<close>

fun rebuild_loop ::
  "env \<Rightarrow> ckch_store \<Rightarrow> ckch_inst list \<Rightarrow> string option \<Rightarrow> bool \<times> string option \<times> ckch_store" where
  "rebuild_loop e new [] errmsg = (True, errmsg, new)"
| "rebuild_loop e new (i # is) errmsg =
     (case ckch_inst_rebuild e new i of
        Inl m \<Rightarrow> (False, Some m, new)
      | Inr ni \<Rightarrow> rebuild_loop e (new\<lparr>insts := insts new @ [ni]\<rparr>) is errmsg)"

definition acme_update_certificate ::
  "env \<Rightarrow> globals \<Rightarrow> acme_ctx \<Rightarrow> string option
     \<Rightarrow> int \<times> string option \<times> globals \<times> acme_ctx" where
  "acme_update_certificate e g ctx errmsg =
     (case HA_SPIN_TRYLOCK g of
        (busy, g1) \<Rightarrow>
          if busy \<noteq> 0
          then (1, Some ''couldn't get the certificate lock!'', HA_SPIN_UNLOCK g1, ctx)
          else
            (case ckchs_lookup g1 (path (store ctx)) of
               None \<Rightarrow>
                 (1, Some ''couldn't find the previous certificate to update'',
                  HA_SPIN_UNLOCK g1, ctx)
             | Some old \<Rightarrow>
                 (case rebuild_loop e (store ctx) (insts old) errmsg of
                    (fin, m, new) \<Rightarrow>
                      if fin
                      then (0, m, HA_SPIN_UNLOCK (ckch_store_replace old new g1),
                            ctx\<lparr>store := new\<rparr>)
                      else (1, m, HA_SPIN_UNLOCK g1, ctx\<lparr>store := new\<rparr>))))"

definition set_key :: "pkey option \<Rightarrow> ckch_store \<Rightarrow> ckch_store" where
  "set_key k s = s\<lparr>data := (data s)\<lparr>key := k\<rparr>\<rparr>"

definition acme_res_certificate ::
  "env \<Rightarrow> globals \<Rightarrow> acme_ctx \<Rightarrow> string option
     \<Rightarrow> (int \<times> string option \<times> globals \<times> acme_ctx) option" where
  "acme_res_certificate e g ctx errmsg =
     (case hc ctx of
        None \<Rightarrow> Some (1, errmsg, g, ctx\<lparr>hc := None\<rparr>)
      | Some h \<Rightarrow>
          if trash_ok e then
            (case res_hdrs h of
               None \<Rightarrow> None
             | Some hs \<Rightarrow>
                 (let c1 = ctx\<lparr>nonce := hdr_scan ''Replay-Nonce'' hs (nonce ctx)\<rparr>
                  in if bad_status h then
                       (case res_error_strings h [Key ''detail''] [Key ''type''] of
                          (ret, t1, t2) \<Rightarrow>
                            Some (ret,
                                  Some (if t2 \<noteq> [] \<and> t1 \<noteq> []
                                        then ''invalid HTTP status code ''
                                               @ string_of_int (res_status h)
                                               @ '' when getting challenge URL: '' @ dq @ t1 @ dq
                                               @ '' ('' @ t2 @ '')''
                                        else ''invalid HTTP status code ''
                                               @ string_of_int (res_status h)
                                               @ '' when getting challengge URL''),
                                  g, c1\<lparr>hc := None\<rparr>))
                     else
                       (let k = key (data (store c1));
                            c2 = c1\<lparr>store := set_key None (store c1)\<rparr>
                        in case load_pem e (path (store c2)) (res_buf h) (data (store c2)) of
                             (r, pm, d) \<Rightarrow>
                               (let c3 = c2\<lparr>store := (store c2)\<lparr>data := d\<rparr>\<rparr>;
                                    m3 = (case pm of None \<Rightarrow> errmsg | Some x \<Rightarrow> Some x)
                                in if r \<noteq> 0 then Some (1, m3, g, c3\<lparr>hc := None\<rparr>)
                                   else
                                     (case acme_update_certificate e g
                                             (c3\<lparr>store := set_key k (store c3)\<rparr>) m3 of
                                        (r2, m4, g2, c5) \<Rightarrow>
                                          if r2 \<noteq> 0 then Some (1, m4, g2, c5\<lparr>hc := None\<rparr>)
                                          else Some (0, m4, g2, c5\<lparr>hc := None\<rparr>))))))
          else Some (1, errmsg, g, ctx\<lparr>hc := None\<rparr>))"

section \<open>The task\<close>

text \<open>
  One run of \<open>acme_process\<close>. The \<open>switch\<close> ends in one of three ways: it falls out
  of its case (\<open>Break\<close>), or jumps to the label \<open>retry\<close> or to the label \<open>end\<close>.
  With the jump come the local variables \<open>st\<close> and \<open>http_st\<close>, whether
  \<open>task_wakeup\<close> was called, the message in \<open>errmsg\<close>, and the state left behind.
\<close>

datatype jump = Break | GotoRetry | GotoEnd

type_synonym switch_out =
  "jump \<times> acme_st \<times> http_st \<times> bool \<times> string option \<times> globals \<times> acme_ctx"

text \<open>After a request was built and sent: a failure jumps to \<open>retry\<close>.\<close>

definition after_req :: "acme_st \<Rightarrow> globals \<Rightarrow> int \<times> string option \<times> acme_ctx \<Rightarrow> switch_out" where
  "after_req st g r =
     (case r of
        (ret, m, c) \<Rightarrow>
          if ret \<noteq> 0 then (GotoRetry, st, ACME_HTTP_REQ, False, m, g, c)
          else (Break, st, ACME_HTTP_REQ, False, m, g, c))"

text \<open>
  After a response was handled: a failure sets \<open>http_st\<close> to REQ and jumps to
  \<open>retry\<close>; a success sets the next state, sets \<open>http_st\<close> to REQ and wakes the task.
\<close>

definition after_res ::
  "acme_st \<Rightarrow> acme_st \<Rightarrow> globals \<Rightarrow> int \<times> string option \<times> acme_ctx \<Rightarrow> switch_out" where
  "after_res st st' g r =
     (case r of
        (ret, m, c) \<Rightarrow>
          if ret \<noteq> 0 then (GotoRetry, st, ACME_HTTP_REQ, False, m, g, c)
          else (Break, st', ACME_HTTP_REQ, True, m, g, c))"

text \<open>A plain \<open>acme_http_req\<close> of the task leaves \<open>errmsg\<close> NULL.\<close>

definition plain_req :: "int \<times> acme_ctx \<Rightarrow> int \<times> string option \<times> acme_ctx" where
  "plain_req r = (fst r, None, snd r)"

definition auths_head :: "acme_ctx \<Rightarrow> nat option" where
  "auths_head c = (if auths c = [] then None else Some 0)"

text \<open>
  The step to the next authorization in AUTH and CHALLENGE: the cursor moves to
  \<open>next_auth->next\<close>; at the end of the list the state changes and the cursor goes
  back to the head. Reading \<open>next\<close> through a NULL cursor has no result.
\<close>

definition advance_auth ::
  "acme_st \<Rightarrow> acme_st \<Rightarrow> globals \<Rightarrow> string option \<Rightarrow> acme_ctx \<Rightarrow> switch_out option" where
  "advance_auth st st' g m c =
     (case auth_at c (next_auth c) of
        None \<Rightarrow> None
      | Some au \<Rightarrow>
          (case auth_next c (next_auth c) of
             None \<Rightarrow> Some (Break, st', ACME_HTTP_REQ, True, m, g, c\<lparr>next_auth := auths_head c\<rparr>)
           | Some n \<Rightarrow> Some (Break, st, ACME_HTTP_REQ, True, m, g, c\<lparr>next_auth := Some n\<rparr>)))"

text \<open>The same step in CHKCHALLENGE, where the cursor stays NULL at the end of the list.\<close>

definition advance_chk :: "globals \<Rightarrow> string option \<Rightarrow> acme_ctx \<Rightarrow> switch_out option" where
  "advance_chk g m c =
     (case auth_at c (next_auth c) of
        None \<Rightarrow> None
      | Some au \<Rightarrow>
          (case auth_next c (next_auth c) of
             None \<Rightarrow> Some (Break, ACME_FINALIZE, ACME_HTTP_REQ, True, m, g, c\<lparr>next_auth := None\<rparr>)
           | Some n \<Rightarrow>
               Some (Break, ACME_CHKCHALLENGE, ACME_HTTP_REQ, True, m, g, c\<lparr>next_auth := Some n\<rparr>)))"

definition acme_switch :: "env \<Rightarrow> globals \<Rightarrow> acme_ctx \<Rightarrow> switch_out option" where
  "acme_switch e g ctx =
     (case state ctx of
        ACME_RESSOURCES \<Rightarrow>
          (case http_state ctx of
             ACME_HTTP_REQ \<Rightarrow>
               Some (after_req ACME_RESSOURCES g
                       (plain_req (acme_http_req e ctx (Some (uri (cfg ctx))) HTTP_METH_GET None None)))
           | ACME_HTTP_RES \<Rightarrow>
               Some (after_res ACME_RESSOURCES ACME_NEWNONCE g (acme_directory ctx None)))
      | ACME_NEWNONCE \<Rightarrow>
          (case http_state ctx of
             ACME_HTTP_REQ \<Rightarrow>
               Some (after_req ACME_NEWNONCE g
                       (plain_req (acme_http_req e ctx (newNonce ctx) HTTP_METH_HEAD None None)))
           | ACME_HTTP_RES \<Rightarrow>
               map_option (after_res ACME_NEWNONCE ACME_CHKACCOUNT g) (acme_nonce ctx None))
      | ACME_CHKACCOUNT \<Rightarrow>
          (case http_state ctx of
             ACME_HTTP_REQ \<Rightarrow> Some (after_req ACME_CHKACCOUNT g (acme_req_account e ctx False None))
           | ACME_HTTP_RES \<Rightarrow>
               (case acme_res_account e ctx False None of
                  None \<Rightarrow> None
                | Some (ret, m, c) \<Rightarrow>
                    Some (after_res ACME_CHKACCOUNT
                            (if isttest (kid c) then ACME_NEWORDER else ACME_NEWACCOUNT)
                            g (ret, m, c))))
      | ACME_NEWACCOUNT \<Rightarrow>
          (case http_state ctx of
             ACME_HTTP_REQ \<Rightarrow> Some (after_req ACME_NEWACCOUNT g (acme_req_account e ctx True None))
           | ACME_HTTP_RES \<Rightarrow>
               (case acme_res_account e ctx True None of
                  None \<Rightarrow> None
                | Some (ret, m, c) \<Rightarrow>
                    if ret \<noteq> 0 then Some (GotoRetry, ACME_NEWACCOUNT, ACME_HTTP_REQ, False, m, g, c)
                    else Some (GotoEnd, ACME_NEWORDER, ACME_HTTP_REQ, True, m, g, c)))
      | ACME_NEWORDER \<Rightarrow>
          (case http_state ctx of
             ACME_HTTP_REQ \<Rightarrow> Some (after_req ACME_NEWORDER g (acme_req_neworder e ctx None))
           | ACME_HTTP_RES \<Rightarrow>
               map_option (after_res ACME_NEWORDER ACME_AUTH g) (acme_res_neworder e ctx None))
      | ACME_AUTH \<Rightarrow>
          (case http_state ctx of
             ACME_HTTP_REQ \<Rightarrow>
               map_option (after_req ACME_AUTH g)
                 (acme_req_auth e ctx (auth_at ctx (next_auth ctx)) None)
           | ACME_HTTP_RES \<Rightarrow>
               (case acme_res_auth e ctx (next_auth ctx) None of
                  None \<Rightarrow> None
                | Some (ret, m, c) \<Rightarrow>
                    if ret \<noteq> 0 then Some (GotoRetry, ACME_AUTH, ACME_HTTP_REQ, False, m, g, c)
                    else advance_auth ACME_AUTH ACME_CHALLENGE g m c))
      | ACME_CHALLENGE \<Rightarrow>
          (case http_state ctx of
             ACME_HTTP_REQ \<Rightarrow>
               map_option (after_req ACME_CHALLENGE g)
                 (acme_req_challenge e ctx (auth_at ctx (next_auth ctx)) None)
           | ACME_HTTP_RES \<Rightarrow>
               (case acme_res_challenge e ctx (next_auth ctx) None of
                  None \<Rightarrow> None
                | Some (ret, m, c) \<Rightarrow>
                    if ret \<noteq> 0 then Some (GotoRetry, ACME_CHALLENGE, ACME_HTTP_REQ, False, m, g, c)
                    else advance_auth ACME_CHALLENGE ACME_CHKCHALLENGE g m c))
      | ACME_CHKCHALLENGE \<Rightarrow>
          (case http_state ctx of
             ACME_HTTP_REQ \<Rightarrow>
               (case auth_at ctx (next_auth ctx) of
                  None \<Rightarrow> None
                | Some au \<Rightarrow>
                    Some (after_req ACME_CHKCHALLENGE g
                            (plain_req (acme_http_req e ctx (chall au) HTTP_METH_GET None None))))
           | ACME_HTTP_RES \<Rightarrow>
               (case acme_res_challenge e ctx (next_auth ctx) None of
                  None \<Rightarrow> None
                | Some (ret, m, c) \<Rightarrow>
                    if ret \<noteq> 0
                    then Some (GotoRetry, ACME_CHKCHALLENGE, ACME_HTTP_REQ, False, m, g, c)
                    else advance_chk g m c))
      | ACME_FINALIZE \<Rightarrow>
          (case http_state ctx of
             ACME_HTTP_REQ \<Rightarrow> Some (after_req ACME_FINALIZE g (acme_req_finalize e ctx None))
           | ACME_HTTP_RES \<Rightarrow>
               map_option (after_res ACME_FINALIZE ACME_CHKORDER g) (acme_res_finalize e ctx None))
      | ACME_CHKORDER \<Rightarrow>
          (case http_state ctx of
             ACME_HTTP_REQ \<Rightarrow>
               Some (after_req ACME_CHKORDER g
                       (plain_req (acme_http_req e ctx (ord_url ctx) HTTP_METH_GET None None)))
           | ACME_HTTP_RES \<Rightarrow>
               Some (after_res ACME_CHKORDER ACME_CERTIFICATE g (acme_res_chkorder e ctx None)))
      | ACME_CERTIFICATE \<Rightarrow>
          (case http_state ctx of
             ACME_HTTP_REQ \<Rightarrow>
               Some (after_req ACME_CERTIFICATE g
                       (plain_req (acme_http_req e ctx (certificate ctx) HTTP_METH_GET None None)))
           | ACME_HTTP_RES \<Rightarrow>
               (case acme_res_certificate e g ctx None of
                  None \<Rightarrow> None
                | Some (ret, m, g', c) \<Rightarrow>
                    if ret \<noteq> 0
                    then Some (GotoRetry, ACME_CERTIFICATE, ACME_HTTP_REQ, False, m, g', c)
                    else Some (GotoEnd, ACME_CERTIFICATE, ACME_HTTP_REQ, False, m, g', c)))
      | ACME_END \<Rightarrow> Some (GotoEnd, ACME_END, http_state ctx, False, None, g, ctx))"

text \<open>
  What a run of the task leaves: whether the task still exists (\<open>task_destroy\<close> was not
  called), whether it was woken again, the notices logged, and the state.
\<close>

record proc_result =
  task_alive :: bool
  task_woken :: bool
  notices :: "string list"
  globals_out :: globals
  ctx_out :: acme_ctx

definition retry_notice :: "string \<Rightarrow> int \<Rightarrow> string option \<Rightarrow> int \<Rightarrow> string" where
  "retry_notice what R m left =
     ''acme: '' @ (case m of None \<Rightarrow> [] | Some x \<Rightarrow> x) @ '', '' @ what @ ''(''
       @ string_of_int (R - left) @ ''/'' @ string_of_int R @ '')''"

text \<open>
  \<open>acme_process\<close>: the switch, then the code after it and under the labels. \<open>R\<close> is
  the constant \<open>ACME_RETRY\<close>, which is defined in the header
  \<open>haproxy/acme-t.h\<close>. The label \<open>end\<close> destroys the task without writing the local \<open>st\<close>
  and \<open>http_st\<close> back.
\<close>

definition acme_process :: "int \<Rightarrow> env \<Rightarrow> globals \<Rightarrow> acme_ctx \<Rightarrow> proc_result option" where
  "acme_process R e g ctx =
     (case acme_switch e g ctx of
        None \<Rightarrow> None
      | Some (j, st, hst, w, m, g', c) \<Rightarrow>
          (case j of
             Break \<Rightarrow>
               Some \<lparr>task_alive = True, task_woken = w, notices = [], globals_out = g',
                     ctx_out = c\<lparr>http_state := hst, state := st\<rparr>\<rparr>
           | GotoRetry \<Rightarrow>
               (let c' = c\<lparr>http_state := hst, state := st, retries := retries c - 1\<rparr>
                in if 0 < retries c'
                   then Some \<lparr>task_alive = True, task_woken = True,
                              notices = [retry_notice ''retrying '' R m (retries c') @ ''...'' @ nl],
                              globals_out = g', ctx_out = c'\<rparr>
                   else Some \<lparr>task_alive = False, task_woken = w,
                              notices = [retry_notice ''aborting. '' R m (retries c') @ nl],
                              globals_out = g', ctx_out = c'\<rparr>)
           | GotoEnd \<Rightarrow>
               Some \<lparr>task_alive = False, task_woken = w, notices = [], globals_out = g',
                     ctx_out = c\<rparr>))"

section \<open>The CSR builder and the trigger\<close>

text \<open>
  The loop of \<open>acme_x509_req\<close> that fills \<open>san_trash\<close>:
  \<open>chunk_appendf(san_trash, "%sDNS:%s", i ? "," : "", san[i])\<close>.
\<close>

fun san_append :: "nat \<Rightarrow> string list \<Rightarrow> string \<Rightarrow> string" where
  "san_append i [] acc = acc"
| "san_append i (s # ss) acc =
     san_append (Suc i) ss (acc @ (if i = 0 then [] else '','') @ ''DNS:'' @ s)"

text \<open>
  What \<open>X509_NAME_add_entry_by_txt(nm, "CN", MBSTRING_ASC, value, -1, -1, 0)\<close> of
  OpenSSL accepts as value, besides refusing a NULL pointer: OpenSSL's string table bounds
  a common name to at least 1 and at most 64 characters (\<open>ub_common_name\<close>).
\<close>

definition cn_accepted :: "string \<Rightarrow> bool" where
  "cn_accepted s = (1 \<le> length s \<and> length s \<le> 64)"

text \<open>
  \<open>acme_x509_req\<close>. The SAN array ends with a NULL entry, so an empty list is an array
  whose first entry is NULL; the array pointer itself may be NULL (\<open>None\<close>), and reading
  \<open>san[0]\<close> through it has no result. OpenSSL is a library outside the program. Its calls
  are numbered in the order the function makes them (0 \<open>X509_REQ_new\<close>, 1
  \<open>X509_REQ_set_pubkey\<close>, 2 \<open>X509_NAME_new\<close>, 3 \<open>X509_NAME_add_entry_by_txt\<close>, and
  so on up to \<open>X509_REQ_sign\<close>), and \<open>ossl_fail\<close> names the first call that fails for
  a reason of its own (memory, the key), if any. Two calls depend on the names:
  \<open>X509_NAME_add_entry_by_txt\<close> refuses the first name when it is NULL or not an accepted
  common name, and \<open>X509V3_EXT_conf_nid\<close> may refuse the joined value. Every failure
  leads to the same label, which returns NULL (the inner \<open>None\<close>). The result records
  what the calls were asked to build.
\<close>

definition acme_x509_req ::
  "env \<Rightarrow> nat option \<Rightarrow> pkey \<Rightarrow> string list option \<Rightarrow> x509_req option option" where
  "acme_x509_req e ossl_fail pk san =
     (if trash_ok e then
        (if (case ossl_fail of None \<Rightarrow> False | Some k \<Rightarrow> k < 3) then Some None
         else
           (case san of
              None \<Rightarrow> None
            | Some names \<Rightarrow>
                (case names of
                   [] \<Rightarrow> Some None
                 | n0 # rest \<Rightarrow>
                     if cn_accepted n0 then
                       (case ossl_fail of
                          Some k \<Rightarrow> Some None
                        | None \<Rightarrow>
                            if san_conf_ok e (san_append 0 names [])
                            then Some (Some \<lparr>x_pubkey = pk, x_subject = [(''CN'', n0)],
                                             x_exts = [(NID_subject_alt_name,
                                                        san_append 0 names [])],
                                             x_sig = Some (EVP_sha256, pk)\<rparr>)
                            else Some None)
                     else Some None)))
      else Some None)"

definition get_acme_cfg :: "acme_cfg list \<Rightarrow> string \<Rightarrow> acme_cfg option" where
  "get_acme_cfg cfgs n = find (\<lambda>c. name c = n) cfgs"

definition arg :: "string list \<Rightarrow> nat \<Rightarrow> string" where
  "arg args k = (if k < length args then args ! k else [])"

text \<open>The label \<open>err\<close> of the trigger: it unlocks, and returns the message to the CLI.\<close>

definition cli_err_exit :: "globals \<Rightarrow> string \<Rightarrow> (string + acme_ctx) \<times> globals" where
  "cli_err_exit g m = (Inl (m @ ''Can't start the ACME client.'' @ nl), HA_SPIN_UNLOCK g)"

text \<open>
  The context \<open>calloc\<close> returns, with the retry budget set and, at the end of the
  trigger, the request, the store and the configuration.
\<close>

definition new_ctx :: "int \<Rightarrow> acme_cfg \<Rightarrow> ckch_store \<Rightarrow> x509_req option \<Rightarrow> acme_ctx" where
  "new_ctx R c s r =
     \<lparr>state = ACME_RESSOURCES, http_state = ACME_HTTP_REQ, retries = R, cfg = c, store = s,
      req = r, hc = None, nonce = None, kid = None, ord_url = None, finalize = None,
      certificate = None, newNonce = None, newAccount = None, newOrder = None, auths = [],
      next_auth = None\<rparr>"

text \<open>
  \<open>cli_acme_renew_parse\<close>, for \<open>acme renew <certname>\<close>; \<open>args\<close> are the words of
  the command. The result is the message for the CLI, or the context of the spawned task.
  \<open>ckchs_dup\<close> (outside \<open>acme.c\<close>) is taken to return a copy of the store with no
  instance attached. Once the key is generated, \<open>EVP_PKEY_CTX_free(pkey_ctx)\<close> is called
  and the pointer is kept; the label \<open>err\<close> frees it again. So the two jumps to
  \<open>err\<close> that come after the key generation, when the CSR cannot be built and when
  no task can be allocated, free the same pointer twice: there the function has no result
  (\<open>None\<close>). A jump to \<open>err\<close> before that point frees it once.
\<close>

definition cli_acme_renew_parse ::
  "int \<Rightarrow> env \<Rightarrow> nat option \<Rightarrow> acme_cfg list \<Rightarrow> globals \<Rightarrow> string list
     \<Rightarrow> ((string + acme_ctx) \<times> globals) option" where
  "cli_acme_renew_parse R e ossl_fail cfgs g args =
     (if arg args 1 = [] then Some (cli_err_exit g ('': not enough parameters'' @ nl))
      else
        (case HA_SPIN_TRYLOCK g of
           (busy, g1) \<Rightarrow>
             if busy \<noteq> 0
             then Some (Inl (''Can't update: operations on certificates are currently locked!''
                              @ nl), g1)
             else
               (case ckchs_lookup g1 (arg args 2) of
                  None \<Rightarrow>
                    Some (cli_err_exit g1 (''Can't find the certificate '' @ sq @ arg args 1
                                            @ sq @ ''.'' @ nl))
                | Some st \<Rightarrow>
                    (case acme_id st of
                       None \<Rightarrow>
                         Some (cli_err_exit g1 (''No ACME configuration defined for file '' @ sq
                                                 @ arg args 1 @ sq @ ''.'' @ nl))
                     | Some ident \<Rightarrow>
                         (case get_acme_cfg cfgs ident of
                            None \<Rightarrow>
                              Some (cli_err_exit g1 (''No ACME configuration found for file ''
                                                      @ sq @ arg args 1 @ sq @ ''.'' @ nl))
                          | Some c \<Rightarrow>
                              (let newstore = st\<lparr>insts := []\<rparr>;
                                   g2 = HA_SPIN_UNLOCK g1
                               in case keygen e c of
                                    KG_new_id_failed \<Rightarrow>
                                      Some (cli_err_exit g2 (''Can't generate a private key.'' @ nl))
                                  | KG_init_failed \<Rightarrow>
                                      Some (cli_err_exit g2 (''Can't generate a private key.'' @ nl))
                                  | KG_param_failed \<Rightarrow>
                                      Some (cli_err_exit g2
                                              ((case keytype c of
                                                  EVP_PKEY_EC \<Rightarrow>
                                                    ''Can't set the curves on the new private key.''
                                                | EVP_PKEY_RSA \<Rightarrow>
                                                    ''Can't set the bits on the new private key.''
                                                | EVP_PKEY_OTHER \<Rightarrow>
                                                    ''Can't generate a private key.'') @ nl))
                                  | KG_keygen_failed \<Rightarrow>
                                      Some (cli_err_exit g2 (''Can't generate a private key.'' @ nl))
                                  | KG_ok pk \<Rightarrow>
                                      (case acme_x509_req e ossl_fail pk (acme_domains st) of
                                         None \<Rightarrow> None
                                       | Some None \<Rightarrow> None
                                       | Some (Some r) \<Rightarrow>
                                           if task_ok e
                                           then Some (Inr (new_ctx R c (set_key (Some pk) newstore)
                                                             (Some r)), g2)
                                           else None)))))))"

text \<open>
  The value the claim gives the subjectAltName extension, in the claim's own words: the
  entries \<open>DNS:<name>\<close>, one for every name, joined by commas.
\<close>

fun comma_join :: "string list \<Rightarrow> string" where
  "comma_join [] = []"
| "comma_join [x] = x"
| "comma_join (x # y # ys) = x @ '','' @ comma_join (y # ys)"

definition san_value :: "string list \<Rightarrow> string" where
  "san_value names = comma_join (map (\<lambda>n. ''DNS:'' @ n) names)"

text \<open>The values of the \<open>Replay-Nonce\<close> headers of a response, in the order received.\<close>

definition replay_nonces :: "http_hdrs \<Rightarrow> string list" where
  "replay_nonces hs = map snd (filter (\<lambda>x. isteqi (fst x) ''Replay-Nonce'') hs)"

section \<open>A concrete renewal\<close>

text \<open>
  One configuration, one certificate with two names and two instances, and an environment
  in which every external call succeeds. The theorems below are evaluated on them.
\<close>

definition ex_cfg :: acme_cfg where
  "ex_cfg = \<lparr>name = ''le'', uri = ''https://acme.example/dir'', challenge = ''HTTP-01'',
             account_contact = Some ''admin@example.com'', account_pkey = 1,
             keytype = EVP_PKEY_EC, bits = 4096, curves = 715\<rparr>"

definition ex_live :: ckch_store where
  "ex_live = \<lparr>path = ''site.pem'', data = \<lparr>key = Some 5, cert = Some ''old chain''\<rparr>,
              insts = [10, 11], acme_id = Some ''le'',
              acme_domains = Some [''a.example'', ''b.example'']\<rparr>"

definition ex_new :: ckch_store where
  "ex_new = \<lparr>path = ''site.pem'', data = \<lparr>key = Some 7, cert = Some ''old chain''\<rparr>,
             insts = [], acme_id = Some ''le'',
             acme_domains = Some [''a.example'', ''b.example'']\<rparr>"

definition ex_globals :: globals where
  "ex_globals = \<lparr>ckch_lock = False, ckchs_tree = (\<lambda>p. if p = ''site.pem'' then Some ex_live else None)\<rparr>"

definition ex_env :: env where
  "ex_env = \<lparr>trash_ok = True, http_ok = True, jws_alg_none = (\<lambda>k. False),
             jws_flattened = (\<lambda>p n u k i. ''jws''),
             i2d_X509_REQ = (\<lambda>r. (3, ''der'')),
             a2base64url = (\<lambda>d n. (4, ''ZGVy'')),
             load_pem = (\<lambda>p b d. (0, None, d\<lparr>cert := Some b\<rparr>)),
             ckch_inst_rebuild = (\<lambda>s i. Inr (i + 100)),
             keygen = (\<lambda>c. KG_ok 7),
             san_conf_ok = (\<lambda>v. True),
             task_ok = True\<rparr>"

definition ex_req :: x509_req where
  "ex_req = \<lparr>x_pubkey = 7, x_subject = [(''CN'', ''a.example'')],
             x_exts = [(NID_subject_alt_name, ''DNS:a.example,DNS:b.example'')],
             x_sig = Some (EVP_sha256, 7)\<rparr>"

definition ex_auth :: acme_auth where
  "ex_auth = \<lparr>auth = Some ''https://acme.example/authz/1'',
              chall = Some ''https://acme.example/chall/1'', token = Some ''tok1''\<rparr>"

text \<open>A renewal in a given state and phase, holding a response with the given parts.\<close>

definition ex_ctx ::
  "acme_st \<Rightarrow> http_st \<Rightarrow> int \<Rightarrow> http_hdrs \<Rightarrow> json \<Rightarrow> acme_ctx" where
  "ex_ctx st hst status hdrs body =
     (new_ctx 3 ex_cfg ex_new (Some ex_req))
       \<lparr>state := st, http_state := hst,
        hc := Some \<lparr>req_meth = HTTP_METH_POST, req_url = Some ''https://acme.example/x'',
                    req_hdrs = None, req_payload = None, res_status = status,
                    res_hdrs = Some hdrs, res_buf = ''body'', res_json = Some body\<rparr>,
        nonce := Some ''nonce-1'',
        newNonce := Some ''https://acme.example/new-nonce'',
        newAccount := Some ''https://acme.example/new-acct'',
        newOrder := Some ''https://acme.example/new-order'',
        ord_url := Some ''https://acme.example/order/1'',
        finalize := Some ''https://acme.example/order/1/finalize'',
        certificate := Some ''https://acme.example/cert/1'',
        auths := [ex_auth], next_auth := Some 0\<rparr>"

definition ex_newaccount_ctx :: acme_ctx where
  "ex_newaccount_ctx =
     ex_ctx ACME_NEWACCOUNT ACME_HTTP_RES 201
       [(''Location'', ''https://acme.example/acct/1''), (''Replay-Nonce'', ''nonce-2'')]
       (JObj [(''status'', JStr ''valid'')])"

definition ex_env_bad_pem :: env where
  "ex_env_bad_pem = ex_env\<lparr>load_pem := (\<lambda>p b d. (1, Some ''unable to load certificate'', d))\<rparr>"

definition ex_certificate_ctx :: acme_ctx where
  "ex_certificate_ctx =
     ex_ctx ACME_CERTIFICATE ACME_HTTP_RES 200 [(''Replay-Nonce'', ''nonce-2'')] JNull"

definition ex_pending_auth :: acme_auth where
  "ex_pending_auth = \<lparr>auth = Some ''https://acme.example/authz/1'', chall = None, token = None\<rparr>"

definition ex_dns_only :: json where
  "ex_dns_only =
     JObj [(''status'', JStr ''pending''),
           (''challenges'',
            JArr [JObj [(''type'', JStr ''dns-01''),
                        (''url'', JStr ''https://acme.example/chall/9''),
                        (''token'', JStr ''tok9'')]])]"

definition ex_auth_ctx :: acme_ctx where
  "ex_auth_ctx =
     (ex_ctx ACME_AUTH ACME_HTTP_RES 200 [(''Replay-Nonce'', ''nonce-2'')] ex_dns_only)
       \<lparr>auths := [ex_pending_auth]\<rparr>"

definition ex_req_ctx :: acme_ctx where
  "ex_req_ctx = (ex_ctx ACME_FINALIZE ACME_HTTP_REQ 0 [] JNull)\<lparr>hc := None\<rparr>"

definition ex_env_bad_rebuild :: env where
  "ex_env_bad_rebuild =
     ex_env\<lparr>ckch_inst_rebuild :=
              (\<lambda>s i. if i = 11 then Inl ''unable to rebuild the instance'' else Inr (i + 100))\<rparr>"

definition ex_globals_no_names :: globals where
  "ex_globals_no_names =
     \<lparr>ckch_lock = False,
      ckchs_tree = (\<lambda>p. if p = ''site.pem'' then Some (ex_live\<lparr>acme_domains := Some []\<rparr>)
                        else None)\<rparr>"




definition ex_nonce_ctx :: acme_ctx where
  "ex_nonce_ctx = ex_ctx ACME_NEWNONCE ACME_HTTP_RES 503 [(''Replay-Nonce'', ''nonce-2'')] JNull"

definition ex_directory_ctx :: acme_ctx where
  "ex_directory_ctx =
     ex_ctx ACME_RESSOURCES ACME_HTTP_RES 200 [(''Replay-Nonce'', ''nonce-2'')]
       (JObj [(''newNonce'', JStr ''https://acme.example/new-nonce''),
              (''newAccount'', JStr ''https://acme.example/new-acct''),
              (''newOrder'', JStr ''https://acme.example/new-order'')])"

definition ex_badnonce_ctx :: acme_ctx where
  "ex_badnonce_ctx =
     ex_ctx ACME_NEWORDER ACME_HTTP_RES 400 [(''Replay-Nonce'', ''nonce-2'')]
       (JObj [(''type'', JStr ''urn:ietf:params:acme:error:badNonce''),
              (''detail'', JStr ''bad nonce'')])"

text \<open>A first name of 65 characters, and a newOrder response that is an error of empty type.\<close>

definition ex_long_name :: string where
  "ex_long_name = replicate 57 CHR ''a'' @ ''.example''"

definition ex_emptytype_ctx :: acme_ctx where
  "ex_emptytype_ctx =
     (ex_ctx ACME_NEWORDER ACME_HTTP_RES 400 [(''Replay-Nonce'', ''nonce-2'')]
        (JObj [(''type'', JStr []), (''detail'', JStr ''bad request'')]))
       \<lparr>retries := 1\<rparr>"

section \<open>Evaluation of the examples\<close>

lemmas ex_defs =
  ex_ctx_def ex_env_def ex_globals_def ex_cfg_def ex_new_def ex_live_def ex_req_def
  ex_auth_def new_ctx_def

lemma isteqi_replay_nonce [simp]: "isteqi ''Replay-Nonce'' ''Replay-Nonce''"
  by (simp add: isteqi_def)

lemma isteqi_location_nonce [simp]:
  "isteqi ''Location'' ''Replay-Nonce'' = False" "isteqi ''Replay-Nonce'' ''Location'' = False"
  "isteqi ''Location'' ''Location''"
  by (simp_all add: isteqi_def tolower_def)

section \<open>The account states\<close>

text \<open>
  C1 (the code departs from the claim). In state NEWACCOUNT, phase RES, whenever the
  response handler \<open>acme_res_account\<close> succeeds, the run of the task ends under the label
  \<open>end\<close>: the task is destroyed, and the context is left as the handler left it, so its
  state is still NEWACCOUNT; NEWORDER, set in the local variable, is never stored.
\<close>

theorem newaccount_success_destroys_task:
  assumes "state ctx = ACME_NEWACCOUNT"
    and "http_state ctx = ACME_HTTP_RES"
    and "acme_res_account e ctx True None = Some (0, m, c)"
  shows "acme_process R e g ctx =
           Some \<lparr>task_alive = False, task_woken = True, notices = [], globals_out = g,
                 ctx_out = c\<rparr>
         \<and> state c = ACME_NEWACCOUNT"
proof -
  have "state c = state ctx"
    using assms(3)
    by (auto simp: acme_res_account_def Let_def
             split: option.splits if_splits prod.splits)
  moreover have "acme_process R e g ctx =
      Some \<lparr>task_alive = False, task_woken = True, notices = [], globals_out = g, ctx_out = c\<rparr>"
    using assms by (simp add: acme_process_def acme_switch_def)
  ultimately show ?thesis using assms(1) by simp
qed

lemma ex_newaccount_handler:
  "acme_res_account ex_env ex_newaccount_ctx True None =
     Some (0, None, ex_newaccount_ctx\<lparr>kid := Some ''https://acme.example/acct/1'',
                                       nonce := Some ''nonce-2'', hc := None\<rparr>)"
  by (simp add: acme_res_account_def ex_newaccount_ctx_def ex_defs bad_status_def)

theorem newaccount_success_destroys_task_witness:
  "state ex_newaccount_ctx = ACME_NEWACCOUNT
   \<and> http_state ex_newaccount_ctx = ACME_HTTP_RES
   \<and> map_option task_alive (acme_process 3 ex_env ex_globals ex_newaccount_ctx) = Some False
   \<and> map_option (state \<circ> ctx_out) (acme_process 3 ex_env ex_globals ex_newaccount_ctx)
       = Some ACME_NEWACCOUNT"
proof -
  have s: "state ex_newaccount_ctx = ACME_NEWACCOUNT"
    and h: "http_state ex_newaccount_ctx = ACME_HTTP_RES"
    by (simp_all add: ex_newaccount_ctx_def ex_defs)
  show ?thesis
    using s h newaccount_success_destroys_task [OF s h ex_newaccount_handler, of 3 ex_globals]
    by simp
qed

section \<open>The lock of the installer\<close>

text \<open>
  C9 (the code departs from the claim). Entered while the lock is held,
  \<open>acme_update_certificate\<close> returns 1 with the message of the claim, but it passes the
  unlock under the label \<open>error\<close>: the lock it did not take is free afterwards.
\<close>

theorem update_certificate_releases_foreign_lock:
  assumes "ckch_lock g"
  shows "acme_update_certificate e g ctx errmsg =
           (1, Some ''couldn't get the certificate lock!'', g\<lparr>ckch_lock := False\<rparr>, ctx)"
  using assms
  by (simp add: acme_update_certificate_def HA_SPIN_TRYLOCK_def HA_SPIN_UNLOCK_def)

theorem update_certificate_releases_foreign_lock_witness:
  "ckch_lock (ex_globals\<lparr>ckch_lock := True\<rparr>)
   \<and> ckch_lock (fst (snd (snd (acme_update_certificate ex_env (ex_globals\<lparr>ckch_lock := True\<rparr>)
                                  ex_newaccount_ctx None)))) = False"
proof -
  have l: "ckch_lock (ex_globals\<lparr>ckch_lock := True\<rparr>)" by simp
  show ?thesis
    using l update_certificate_releases_foreign_lock [OF l, of ex_env ex_newaccount_ctx None]
    by simp
qed

section \<open>The certificate response\<close>

text \<open>
  C7 (the code departs from the claim). When the PEM loader fails on a 2xx response, the
  handler leaves by \<open>goto error\<close> before the statement that restores the key: the store
  keeps the key slot as the loader left it, and the saved key is gone. In the example the
  loader leaves the data untouched, so the slot holds NULL where the fresh key was.
\<close>

theorem res_certificate_pem_failure_loses_key:
  assumes "hc ctx = Some h"
    and "trash_ok e"
    and "res_hdrs h = Some hs"
    and "bad_status h = False"
    and "load_pem e (path (store ctx)) (res_buf h) ((data (store ctx))\<lparr>key := None\<rparr>) = (r, pm, d)"
    and "r \<noteq> 0"
  shows "\<exists>m c. acme_res_certificate e g ctx errmsg = Some (1, m, g, c)
               \<and> key (data (store c)) = key d"
  using assms by (simp add: acme_res_certificate_def set_key_def Let_def)

theorem res_certificate_pem_failure_loses_key_witness:
  "key (data (store ex_certificate_ctx)) = Some 7
   \<and> (\<exists>m c. acme_res_certificate ex_env_bad_pem ex_globals ex_certificate_ctx None
               = Some (1, m, ex_globals, c)
             \<and> key (data (store c)) = None)"
proof -
  let ?h = "\<lparr>req_meth = HTTP_METH_POST, req_url = Some ''https://acme.example/x'',
             req_hdrs = None, req_payload = None, res_status = 200,
             res_hdrs = Some [(''Replay-Nonce'', ''nonce-2'')], res_buf = ''body'',
             res_json = Some JNull\<rparr>"
  have a: "hc ex_certificate_ctx = Some ?h"
    by (simp add: ex_certificate_ctx_def ex_defs)
  have b: "trash_ok ex_env_bad_pem"
    by (simp add: ex_env_bad_pem_def ex_defs)
  have c: "res_hdrs ?h = Some [(''Replay-Nonce'', ''nonce-2'')]" by simp
  have d: "bad_status ?h = False" by (simp add: bad_status_def)
  have e: "load_pem ex_env_bad_pem (path (store ex_certificate_ctx)) (res_buf ?h)
             ((data (store ex_certificate_ctx))\<lparr>key := None\<rparr>)
           = (1, Some ''unable to load certificate'',
              (data (store ex_certificate_ctx))\<lparr>key := None\<rparr>)"
    by (simp add: ex_env_bad_pem_def ex_defs)
  have f: "(1::int) \<noteq> 0" by simp
  have k: "key (data (store ex_certificate_ctx)) = Some 7"
    by (simp add: ex_certificate_ctx_def ex_defs)
  show ?thesis
    using k res_certificate_pem_failure_loses_key [OF a b c d e f, of ex_globals None]
    by simp
qed

section \<open>The choice of the challenge\<close>

text \<open>
  C2 (the code departs from the claim). The server offers only \<open>dns-01\<close> and the
  configuration asks for \<open>HTTP-01\<close>: the loop over the challenges runs off the end of
  the array by \<open>break\<close>, which leads to \<open>ret = 0\<close>. The handler reports success with
  no challenge URL stored, and the task goes on to state CHALLENGE.
\<close>

theorem res_auth_without_match_succeeds:
  "mjson_get_string (Some ex_dns_only) [Key ''challenges'', Idx 0, Key ''type''] = Some ''dns-01''
   \<and> mjson_find (Some ex_dns_only) [Key ''challenges'', Idx 1] = None
   \<and> challenge (cfg ex_auth_ctx) = ''HTTP-01''
   \<and> map_option (\<lambda>r. (fst r, fst (snd r), map chall (auths (snd (snd r)))))
        (acme_res_auth ex_env ex_auth_ctx (Some 0) None) = Some (0, None, [None])
   \<and> map_option (\<lambda>r. (task_alive r, state (ctx_out r), retries (ctx_out r)))
        (acme_process 3 ex_env ex_globals ex_auth_ctx) = Some (True, ACME_CHALLENGE, 3)"
proof -
  have t: "mjson_get_string (Some ex_dns_only) [Key ''challenges'', Idx 0, Key ''type'']
             = Some ''dns-01''"
    and n: "mjson_find (Some ex_dns_only) [Key ''challenges'', Idx 1] = None"
    by (simp_all add: ex_dns_only_def mjson_get_string_def mjson_find_def)
  have l: "auth_challenges (Some ex_dns_only) ''HTTP-01'' None 0 (Some ex_pending_auth)
             = Some (0, None, Some ex_pending_auth)"
    by (simp add: auth_challenges.simps [of _ _ _ 0] auth_challenges.simps [of _ _ _ "Suc 0"]
                  snprintf_len_def string_of_nat.simps [of 0] string_of_nat.simps [of "Suc 0"]
                  ex_dns_only_def mjson_get_string_def mjson_find_def tolower_def)
  have r: "acme_res_auth ex_env ex_auth_ctx (Some 0) None
             = Some (0, None, ex_auth_ctx\<lparr>nonce := Some ''nonce-2'', hc := None\<rparr>)"
    by (simp add: acme_res_auth_def ex_auth_ctx_def ex_defs bad_status_def l auth_at_def
                  auth_store_def)
  have s: "state ex_auth_ctx = ACME_AUTH" "http_state ex_auth_ctx = ACME_HTTP_RES"
    "next_auth ex_auth_ctx = Some 0" "auths ex_auth_ctx = [ex_pending_auth]"
    "retries ex_auth_ctx = 3" "challenge (cfg ex_auth_ctx) = ''HTTP-01''"
    by (simp_all add: ex_auth_ctx_def ex_defs)
  have p: "map_option (\<lambda>r. (task_alive r, state (ctx_out r), retries (ctx_out r)))
             (acme_process 3 ex_env ex_globals ex_auth_ctx) = Some (True, ACME_CHALLENGE, 3)"
    by (simp add: acme_process_def acme_switch_def r s advance_auth_def auth_at_def
                  auth_next_def auths_head_def)
  show ?thesis
    using t n r p s by (simp add: ex_pending_auth_def)
qed
section \<open>The message of the request builders\<close>

text \<open>
  C10. Whatever the inputs and whatever they return, the five request builders leave their
  fixed message in \<open>*errmsg\<close>: every path, the successful one too, runs the
  \<open>memprintf\<close> under the label \<open>error\<close>. (\<open>acme_req_challenge\<close> and
  \<open>acme_req_auth\<close> read the authorization they are given; they return only when it is
  not NULL or the buffers could not be allocated.)
\<close>

theorem req_builders_overwrite_errmsg:
  "fst (snd (acme_req_finalize e ctx errmsg)) = Some ''couldn't request the finalize URL''
   \<and> fst (snd (acme_req_neworder e ctx errmsg)) = Some ''couldn't generate the newOrder request''
   \<and> fst (snd (acme_req_account e ctx na errmsg))
       = Some ''couldn't generate the newAccount request''
   \<and> (\<forall>r. acme_req_challenge e ctx a errmsg = Some r
          \<longrightarrow> fst (snd r) = Some ''couldn't generate the Challenge request'')
   \<and> (\<forall>r. acme_req_auth e ctx a errmsg = Some r
          \<longrightarrow> fst (snd r) = Some ''couldn't generate the Authorizations request'')"
proof -
  have 1: "fst (snd (acme_req_finalize e ctx errmsg)) = Some ''couldn't request the finalize URL''"
    by (simp add: acme_req_finalize_def Let_def split: prod.splits)
  have 2: "fst (snd (acme_req_neworder e ctx errmsg))
             = Some ''couldn't generate the newOrder request''"
    by (simp add: acme_req_neworder_def Let_def split: prod.splits option.splits)
  have 3: "fst (snd (acme_req_account e ctx na errmsg))
             = Some ''couldn't generate the newAccount request''"
    by (simp add: acme_req_account_def Let_def split: prod.splits)
  have 4: "\<forall>r. acme_req_challenge e ctx a errmsg = Some r
             \<longrightarrow> fst (snd r) = Some ''couldn't generate the Challenge request''"
    by (auto simp: acme_req_challenge_def Let_def split: prod.splits option.splits if_splits)
  have 5: "\<forall>r. acme_req_auth e ctx a errmsg = Some r
             \<longrightarrow> fst (snd r) = Some ''couldn't generate the Authorizations request''"
    by (auto simp: acme_req_auth_def Let_def split: prod.splits option.splits if_splits)
  show ?thesis using 1 2 3 4 5 by blast
qed

lemma ex_req_challenge:
  "\<exists>c. acme_req_challenge ex_env ex_req_ctx (Some ex_auth) (Some ''old message'')
          = Some (0, Some ''couldn't generate the Challenge request'', c)"
  by (simp add: acme_req_challenge_def acme_jws_payload_def acme_http_req_def ex_req_ctx_def
                ex_defs jose_hdrs_def)

lemma ex_req_auth:
  "\<exists>c. acme_req_auth ex_env ex_req_ctx (Some ex_auth) (Some ''old message'')
          = Some (0, Some ''couldn't generate the Authorizations request'', c)"
  by (simp add: acme_req_auth_def acme_jws_payload_def acme_http_req_def ex_req_ctx_def
                ex_defs jose_hdrs_def)

theorem req_builders_overwrite_errmsg_witness:
  "fst (acme_req_finalize ex_env ex_req_ctx (Some ''old message'')) = 0
   \<and> fst (snd (acme_req_finalize ex_env ex_req_ctx (Some ''old message'')))
       = Some ''couldn't request the finalize URL''
   \<and> fst (acme_req_neworder ex_env ex_req_ctx (Some ''old message'')) = 0
   \<and> fst (snd (acme_req_neworder ex_env ex_req_ctx (Some ''old message'')))
       = Some ''couldn't generate the newOrder request''
   \<and> fst (acme_req_account ex_env ex_req_ctx True (Some ''old message'')) = 0
   \<and> fst (snd (acme_req_account ex_env ex_req_ctx True (Some ''old message'')))
       = Some ''couldn't generate the newAccount request''
   \<and> (\<exists>c. acme_req_challenge ex_env ex_req_ctx (Some ex_auth) (Some ''old message'')
             = Some (0, Some ''couldn't generate the Challenge request'', c))
   \<and> (\<exists>c. acme_req_auth ex_env ex_req_ctx (Some ex_auth) (Some ''old message'')
             = Some (0, Some ''couldn't generate the Authorizations request'', c))"
proof -
  have f: "fst (acme_req_finalize ex_env ex_req_ctx (Some ''old message'')) = 0"
    by (simp add: acme_req_finalize_def acme_jws_payload_def acme_http_req_def ex_req_ctx_def
                  ex_defs jose_hdrs_def size_t_of_def)
  have n: "fst (acme_req_neworder ex_env ex_req_ctx (Some ''old message'')) = 0"
    by (simp add: acme_req_neworder_def acme_jws_payload_def acme_http_req_def ex_req_ctx_def
                  ex_defs jose_hdrs_def)
  have a: "fst (acme_req_account ex_env ex_req_ctx True (Some ''old message'')) = 0"
    by (simp add: acme_req_account_def acme_jws_payload_def acme_http_req_def ex_req_ctx_def
                  ex_defs jose_hdrs_def)
  show ?thesis
    using f n a ex_req_challenge ex_req_auth
      req_builders_overwrite_errmsg [of ex_env ex_req_ctx "Some ''old message''" True
                                        "Some ex_auth"]
    by blast
qed

section \<open>The hot-swap installer\<close>

lemma rebuild_loop_shape:
  "rebuild_loop e new is errmsg = (True, m, new') \<Longrightarrow>
     m = errmsg \<and> path new' = path new
     \<and> length (insts new') = length (insts new) + length is"
proof (induction "is" arbitrary: new)
  case Nil
  then show ?case by simp
next
  case (Cons i "is")
  then show ?case by (fastforce split: sum.splits)
qed

lemma rebuild_loop_every_instance:
  "rebuild_loop e new is errmsg = (True, m, new') \<Longrightarrow> k < length is \<Longrightarrow>
     \<exists>s ni. rebuild_loop e new (take k is) errmsg = (True, errmsg, s)
            \<and> ckch_inst_rebuild e s (is ! k) = Inr ni"
proof (induction "is" arbitrary: new k)
  case Nil
  then show ?case by simp
next
  case (Cons i "is")
  from Cons.prems(1) obtain ni where
    ni: "ckch_inst_rebuild e new i = Inr ni" and
    rest: "rebuild_loop e (new\<lparr>insts := insts new @ [ni]\<rparr>) is errmsg = (True, m, new')"
    by (auto split: sum.splits)
  show ?case
  proof (cases k)
    case 0
    then show ?thesis using ni by simp
  next
    case (Suc j)
    with Cons.prems(2) have "j < length is" by simp
    from Cons.IH [OF rest this] show ?thesis using Suc ni by simp
  qed
qed

lemma rebuild_loop_one_failure:
  "k < length is \<Longrightarrow> rebuild_loop e new (take k is) errmsg = (True, m, s) \<Longrightarrow>
   ckch_inst_rebuild e s (is ! k) = Inl x \<Longrightarrow> fst (rebuild_loop e new is errmsg) = False"
proof (induction "is" arbitrary: new k)
  case Nil
  then show ?case by simp
next
  case (Cons i "is")
  show ?case
  proof (cases k)
    case 0
    then show ?thesis using Cons.prems by simp
  next
    case (Suc j)
    then show ?thesis
      using Cons.prems Cons.IH [of j]
      by (auto split: sum.splits)
  qed
qed

text \<open>
  C6. Whatever \<open>acme_update_certificate\<close> returns: when it returns 0, the lock was free,
  the live entry was found, every instance of the live entry was rebuilt with success (in
  the order of the list, each against the new store as the instances before it left it),
  the new store holds one more instance for each, and the index maps the path to the new
  store; when it returns anything else, the index is what it was. And it returns 1 as soon
  as the lock is held, the live entry is missing, or the rebuild of one instance fails.
\<close>

theorem update_certificate_all_or_nothing:
  assumes "acme_update_certificate e g ctx errmsg = (ret, m, g', ctx')"
  shows "(ret = 0 \<longrightarrow>
            (\<exists>old. ckch_lock g = False
               \<and> ckchs_lookup g (path (store ctx)) = Some old
               \<and> (\<forall>k<length (insts old). \<exists>s ni.
                      rebuild_loop e (store ctx) (take k (insts old)) errmsg = (True, errmsg, s)
                      \<and> ckch_inst_rebuild e s (insts old ! k) = Inr ni)
               \<and> length (insts (store ctx')) = length (insts (store ctx)) + length (insts old)
               \<and> ckchs_tree g'
                   = ((ckchs_tree g)(path old := None))(path (store ctx) := Some (store ctx'))))
         \<and> (ret \<noteq> 0 \<longrightarrow> ckchs_tree g' = ckchs_tree g)
         \<and> (ckch_lock g \<or> ckchs_lookup g (path (store ctx)) = None
              \<or> (\<exists>old k s x. ckchs_lookup g (path (store ctx)) = Some old
                     \<and> k < length (insts old)
                     \<and> rebuild_loop e (store ctx) (take k (insts old)) errmsg = (True, errmsg, s)
                     \<and> ckch_inst_rebuild e s (insts old ! k) = Inl x)
              \<longrightarrow> ret = 1)"
proof (cases "ckch_lock g")
  case True
  then show ?thesis
    using assms
    by (auto simp: acme_update_certificate_def HA_SPIN_TRYLOCK_def HA_SPIN_UNLOCK_def)
next
  case free: False
  show ?thesis
  proof (cases "ckchs_lookup g (path (store ctx))")
    case None
    then show ?thesis
      using assms free
      by (auto simp: acme_update_certificate_def HA_SPIN_TRYLOCK_def HA_SPIN_UNLOCK_def
                     ckchs_lookup_def)
  next
    case (Some old)
    obtain fin m1 new where
      loop: "rebuild_loop e (store ctx) (insts old) errmsg = (fin, m1, new)"
      by (cases "rebuild_loop e (store ctx) (insts old) errmsg") auto
    show ?thesis
    proof (cases fin)
      case True
      have res: "ret = 0" "ctx' = ctx\<lparr>store := new\<rparr>"
        "ckchs_tree g' = ((ckchs_tree g)(path old := None))(path new := Some new)"
        using assms free Some loop True
        by (auto simp: acme_update_certificate_def HA_SPIN_TRYLOCK_def HA_SPIN_UNLOCK_def
                       ckchs_lookup_def ckch_store_replace_def)
      have shape: "path new = path (store ctx)"
        "length (insts new) = length (insts (store ctx)) + length (insts old)"
        using rebuild_loop_shape [of e "store ctx" "insts old" errmsg m1 new] loop True
        by simp_all
      have loop': "rebuild_loop e (store ctx) (insts old) errmsg = (True, m1, new)"
        using loop True by simp
      have each: "\<forall>k<length (insts old). \<exists>s ni.
          rebuild_loop e (store ctx) (take k (insts old)) errmsg = (True, errmsg, s)
          \<and> ckch_inst_rebuild e s (insts old ! k) = Inr ni"
        by (intro allI impI) (rule rebuild_loop_every_instance [OF loop'])
      have nofail: "\<not> (\<exists>k s x. k < length (insts old)
          \<and> rebuild_loop e (store ctx) (take k (insts old)) errmsg = (True, errmsg, s)
          \<and> ckch_inst_rebuild e s (insts old ! k) = Inl x)"
        using rebuild_loop_one_failure [of _ "insts old" e "store ctx" errmsg errmsg] loop True
        by fastforce
      show ?thesis
        using res shape each nofail free Some by auto
    next
      case False
      have res: "ret = 1" "ckchs_tree g' = ckchs_tree g"
        using assms free Some loop False
        by (auto simp: acme_update_certificate_def HA_SPIN_TRYLOCK_def HA_SPIN_UNLOCK_def
                       ckchs_lookup_def)
      show ?thesis using res by simp
    qed
  qed
qed

lemma ex_update_certificate:
  "acme_update_certificate ex_env ex_globals ex_certificate_ctx None =
     (0, None,
      ex_globals\<lparr>ckchs_tree :=
                   ((ckchs_tree ex_globals)(''site.pem'' := None))
                     (''site.pem'' := Some (ex_new\<lparr>insts := [110, 111]\<rparr>))\<rparr>,
      ex_certificate_ctx\<lparr>store := ex_new\<lparr>insts := [110, 111]\<rparr>\<rparr>)"
  by (simp add: acme_update_certificate_def HA_SPIN_TRYLOCK_def HA_SPIN_UNLOCK_def
                ckchs_lookup_def ckch_store_replace_def ex_certificate_ctx_def ex_defs)

lemma ex_update_certificate_bad:
  "acme_update_certificate ex_env_bad_rebuild ex_globals ex_certificate_ctx None =
     (1, Some ''unable to rebuild the instance'', ex_globals,
      ex_certificate_ctx\<lparr>store := ex_new\<lparr>insts := [110]\<rparr>\<rparr>)"
  by (simp add: acme_update_certificate_def HA_SPIN_TRYLOCK_def HA_SPIN_UNLOCK_def
                ckchs_lookup_def ckch_store_replace_def ex_certificate_ctx_def ex_defs
                ex_env_bad_rebuild_def)

theorem update_certificate_all_or_nothing_witness:
  "fst (acme_update_certificate ex_env ex_globals ex_certificate_ctx None) = 0
   \<and> ckchs_tree ex_globals ''site.pem'' = Some ex_live
   \<and> ckchs_tree (fst (snd (snd (acme_update_certificate ex_env ex_globals
                                   ex_certificate_ctx None)))) ''site.pem''
       = Some (ex_new\<lparr>insts := [110, 111]\<rparr>)
   \<and> fst (acme_update_certificate ex_env_bad_rebuild ex_globals ex_certificate_ctx None) = 1
   \<and> ckchs_tree (fst (snd (snd (acme_update_certificate ex_env_bad_rebuild ex_globals
                                   ex_certificate_ctx None))))
       = ckchs_tree ex_globals"
proof -
  have live: "ckchs_tree ex_globals ''site.pem'' = Some ex_live"
    by (simp add: ex_globals_def)
  have kept: "(1::int) \<noteq> 0 \<longrightarrow>
      ckchs_tree (fst (snd (snd (acme_update_certificate ex_env_bad_rebuild ex_globals
                                   ex_certificate_ctx None))))
        = ckchs_tree ex_globals"
    using update_certificate_all_or_nothing [OF ex_update_certificate_bad]
    by (simp add: ex_update_certificate_bad)
  show ?thesis
    using live kept
    by (simp add: ex_update_certificate ex_update_certificate_bad)
qed

section \<open>The CSR builder\<close>

lemma san_append_later:
  "0 < i \<Longrightarrow> san_append i names acc = acc @ concat (map (\<lambda>n. '',DNS:'' @ n) names)"
  by (induction names arbitrary: i acc) auto

lemma comma_join_first:
  "comma_join (map f (n # ns)) = f n @ concat (map (\<lambda>x. '','' @ f x) ns)"
  by (induction ns arbitrary: n) auto

lemma san_append_is_san_value: "san_append 0 names [] = san_value names"
proof (cases names)
  case Nil
  then show ?thesis by (simp add: san_value_def)
next
  case (Cons n ns)
  have "san_append 0 (n # ns) [] = ''DNS:'' @ n @ concat (map (\<lambda>x. '',DNS:'' @ x) ns)"
    by (simp add: san_append_later)
  also have "\<dots> = san_value (n # ns)"
    unfolding san_value_def comma_join_first by simp
  finally show ?thesis using Cons by simp
qed

text \<open>
  C8, as the claim states it, fails. A list whose first name has 65 characters is not
  empty, yet the builder returns NULL for it: OpenSSL refuses the common name. And for the
  empty list the builder returns NULL, but the trigger then jumps to \<open>err\<close> with the
  key-generation context already freed and frees it again: it has no result, so it reports
  nothing.
\<close>

theorem csr_builder_refuses_long_first_name:
  "length ex_long_name = 65
   \<and> acme_x509_req ex_env None 7 (Some [ex_long_name]) = Some None
   \<and> acme_x509_req ex_env None 7 (Some []) = Some None
   \<and> cli_acme_renew_parse 3 ex_env None [ex_cfg] ex_globals_no_names
        [''acme'', ''renew'', ''site.pem''] = None"
proof -
  have l: "length ex_long_name = 65" by (simp add: ex_long_name_def)
  have r: "acme_x509_req ex_env None 7 (Some [ex_long_name]) = Some None"
    by (simp add: acme_x509_req_def cn_accepted_def ex_env_def l)
  have e: "\<And>E. acme_x509_req E None 7 (Some []) = Some None"
    by (simp add: acme_x509_req_def)
  have t: "cli_acme_renew_parse 3 ex_env None [ex_cfg] ex_globals_no_names
             [''acme'', ''renew'', ''site.pem''] = None"
    by (simp add: cli_acme_renew_parse_def arg_def HA_SPIN_TRYLOCK_def HA_SPIN_UNLOCK_def
                  ckchs_lookup_def get_acme_cfg_def e ex_globals_no_names_def ex_live_def
                  ex_cfg_def ex_env_def)
  show ?thesis using l r e t by simp
qed

text \<open>
  C8, amended. With its buffer allocated and no OpenSSL call failing for a reason of its
  own, the CSR builder returns, for every key and every non-empty list of names whose first
  name OpenSSL accepts as a common name (1 to 64 characters) and whose joined value it
  accepts for the extension, a request for that key, signed with SHA-256 by that key, whose
  subject is \<open>CN=<first name>\<close> and whose only extension is a subjectAltName holding
  \<open>DNS:<name>\<close> for every name, joined by commas. When the first name is not an accepted
  common name, and for the empty list, it returns NULL.
\<close>

theorem csr_builder_subject_and_san:
  "(trash_ok e \<and> names \<noteq> [] \<and> cn_accepted (hd names) \<and> san_conf_ok e (san_value names)
      \<longrightarrow>
      acme_x509_req e None pk (Some names) =
        Some (Some \<lparr>x_pubkey = pk, x_subject = [(''CN'', hd names)],
                    x_exts = [(NID_subject_alt_name, san_value names)],
                    x_sig = Some (EVP_sha256, pk)\<rparr>))
   \<and> (names \<noteq> [] \<and> cn_accepted (hd names) = False \<longrightarrow>
        acme_x509_req e fl pk (Some names) = Some None)
   \<and> acme_x509_req e fl pk (Some []) = Some None"
proof -
  have built: "trash_ok e \<and> names \<noteq> [] \<and> cn_accepted (hd names)
      \<and> san_conf_ok e (san_value names) \<longrightarrow>
      acme_x509_req e None pk (Some names) =
        Some (Some \<lparr>x_pubkey = pk, x_subject = [(''CN'', hd names)],
                    x_exts = [(NID_subject_alt_name, san_value names)],
                    x_sig = Some (EVP_sha256, pk)\<rparr>)"
    by (cases names) (simp_all add: acme_x509_req_def san_append_is_san_value [symmetric])
  have refused: "names \<noteq> [] \<and> cn_accepted (hd names) = False \<longrightarrow>
        acme_x509_req e fl pk (Some names) = Some None"
    by (cases names) (simp_all add: acme_x509_req_def split: option.splits)
  have empty: "acme_x509_req e fl pk (Some []) = Some None"
    by (simp add: acme_x509_req_def split: option.splits)
  show ?thesis using built refused empty by blast
qed

theorem csr_builder_subject_and_san_witness:
  "acme_x509_req ex_env None 7 (Some [''a.example'', ''b.example'']) = Some (Some ex_req)
   \<and> acme_x509_req ex_env None 7 (Some []) = Some None"
proof -
  have h: "trash_ok ex_env \<and> [''a.example'', ''b.example''] \<noteq> []
      \<and> cn_accepted (hd [''a.example'', ''b.example''])
      \<and> san_conf_ok ex_env (san_value [''a.example'', ''b.example''])"
    by (simp add: ex_env_def cn_accepted_def)
  have v: "san_value [''a.example'', ''b.example''] = ''DNS:a.example,DNS:b.example''"
    by (simp add: san_value_def)
  show ?thesis
    using h csr_builder_subject_and_san [of ex_env "[''a.example'', ''b.example'']" 7 None]
    by (simp add: v ex_req_def)
qed

section \<open>Polling the challenges\<close>


lemma res_challenge_result:
  assumes "hc ctx = Some h" and "trash_ok e" and "res_hdrs h = Some hs"
  shows "\<exists>ret m. acme_res_challenge e ctx p errmsg
                   = Some (ret, m, ctx\<lparr>nonce := hdr_scan ''Replay-Nonce'' hs (nonce ctx),
                                        hc := None\<rparr>)
                 \<and> (bad_status h = False
                      \<and> is_object (mjson_find (res_json h) [Key ''error'']) = False
                      \<longrightarrow> ret = 0)"
  using assms
  by (cases "res_error_strings h [Key ''error'', Key ''detail''] [Key ''error'', Key ''type'']"
        rule: prod_cases3)
     (simp add: acme_res_challenge_def Let_def)



section \<open>The nonce\<close>

lemma hdr_scan_filter:
  "hdr_scan nm hs cur =
     (if filter (\<lambda>x. isteqi (fst x) nm) hs = [] then cur
      else Some (snd (last (filter (\<lambda>x. isteqi (fst x) nm) hs))))"
  by (induction hs arbitrary: cur) auto

lemma hdr_scan_last:
  "replay_nonces hs \<noteq> [] \<Longrightarrow>
     hdr_scan ''Replay-Nonce'' hs cur = Some (last (replay_nonces hs))"
  by (simp add: hdr_scan_filter replay_nonces_def last_map)

lemma neworder_auths_nonce:
  "neworder_auths buf i ret errmsg ctx = (d, r, m, c) \<Longrightarrow> nonce c = nonce ctx"
proof (induction buf i ret errmsg ctx rule: neworder_auths.induct)
  case (1 buf i ret errmsg ctx)
  from "1.prems" show ?case
    by (subst (asm) neworder_auths.simps)
       (auto split: if_splits option.splits dest: "1.IH")
qed

lemma auth_challenges_returns:
  "a \<noteq> None \<Longrightarrow> auth_challenges buf cc errmsg i a \<noteq> None"
proof (induction buf cc errmsg i a rule: auth_challenges.induct)
  case (1 buf cc errmsg i a)
  show ?case
    using "1.prems" "1.IH"
    by (subst auth_challenges.simps) (auto split: option.splits)
qed

lemma auth_store_nonce: "nonce (auth_store c p a) = nonce c"
  by (simp add: auth_store_def split: option.splits)

lemma update_certificate_nonce:
  "acme_update_certificate e g ctx errmsg = (r, m, g', c) \<Longrightarrow> nonce c = nonce ctx"
  by (auto simp: acme_update_certificate_def split: prod.splits if_splits option.splits)

text \<open>
  C4, as the claim states it, fails for the two handlers that do not build a signed
  request. The newNonce handler tests the status first: on a 503 that carries a
  \<open>Replay-Nonce\<close> header it returns 1 and the stored nonce is the old one, also after
  the run of the task. The directory handler never reads the headers.
\<close>

theorem newnonce_error_keeps_old_nonce:
  "map_option res_status (hc ex_nonce_ctx) = Some 503
   \<and> map_option res_hdrs (hc ex_nonce_ctx) = Some (Some [(''Replay-Nonce'', ''nonce-2'')])
   \<and> nonce ex_nonce_ctx = Some ''nonce-1''
   \<and> map_option (\<lambda>r. (fst r, nonce (snd (snd r)))) (acme_nonce ex_nonce_ctx None)
       = Some (1, Some ''nonce-1'')
   \<and> map_option (nonce \<circ> ctx_out) (acme_process 3 ex_env ex_globals ex_nonce_ctx)
       = Some (Some ''nonce-1'')
   \<and> map_option res_hdrs (hc ex_directory_ctx) = Some (Some [(''Replay-Nonce'', ''nonce-2'')])
   \<and> fst (acme_directory ex_directory_ctx None) = 0
   \<and> nonce (snd (snd (acme_directory ex_directory_ctx None))) = Some ''nonce-1''"
proof -
  have s: "map_option res_status (hc ex_nonce_ctx) = Some 503"
    "map_option res_hdrs (hc ex_nonce_ctx) = Some (Some [(''Replay-Nonce'', ''nonce-2'')])"
    "nonce ex_nonce_ctx = Some ''nonce-1''" "state ex_nonce_ctx = ACME_NEWNONCE"
    "http_state ex_nonce_ctx = ACME_HTTP_RES" "retries ex_nonce_ctx = 3"
    by (simp_all add: ex_nonce_ctx_def ex_defs)
  have n: "acme_nonce ex_nonce_ctx None
             = Some (1, Some (''invalid HTTP status code '' @ string_of_int 503
                               @ '' when getting Nonce URL''),
                     ex_nonce_ctx\<lparr>hc := None\<rparr>)"
    by (simp add: acme_nonce_def ex_nonce_ctx_def ex_defs bad_status_def)
  have p: "map_option (nonce \<circ> ctx_out) (acme_process 3 ex_env ex_globals ex_nonce_ctx)
             = Some (Some ''nonce-1'')"
    by (simp add: acme_process_def acme_switch_def after_res_def n s Let_def)
  have d: "map_option res_hdrs (hc ex_directory_ctx) = Some (Some [(''Replay-Nonce'', ''nonce-2'')])"
    "fst (acme_directory ex_directory_ctx None) = 0"
    "nonce (snd (snd (acme_directory ex_directory_ctx None))) = Some ''nonce-1''"
    by (simp_all add: acme_directory_def ex_directory_ctx_def ex_defs mjson_get_string_def
                      mjson_find_def mjson_ret_def Let_def)
  show ?thesis using s n p d by simp
qed

text \<open>
  C4, amended. On a response whose headers were received and contain \<open>Replay-Nonce\<close>,
  with the HTTP client handle present and the scratch buffers allocated, each of the seven
  handlers of a signed or polled request returns with the nonce replaced by the value of
  the header (the last one, should there be several), whatever the status;
  \<open>acme_res_auth\<close> needs the authorization it is given. The newNonce handler does the
  same when the status is 2xx.
\<close>

theorem replay_nonce_replaces_nonce:
  assumes "hc ctx = Some h"
    and "res_hdrs h = Some hs"
    and "trash_ok e"
    and "replay_nonces hs \<noteq> []"
  shows "(\<exists>r m c. acme_res_account e ctx na errmsg = Some (r, m, c)
            \<and> nonce c = Some (last (replay_nonces hs)))
       \<and> (\<exists>r m c. acme_res_neworder e ctx errmsg = Some (r, m, c)
            \<and> nonce c = Some (last (replay_nonces hs)))
       \<and> (auth_at ctx p \<noteq> None \<longrightarrow>
            (\<exists>r m c. acme_res_auth e ctx p errmsg = Some (r, m, c)
               \<and> nonce c = Some (last (replay_nonces hs))))
       \<and> (\<exists>r m c. acme_res_challenge e ctx p errmsg = Some (r, m, c)
            \<and> nonce c = Some (last (replay_nonces hs)))
       \<and> (\<exists>r m c. acme_res_finalize e ctx errmsg = Some (r, m, c)
            \<and> nonce c = Some (last (replay_nonces hs)))
       \<and> nonce (snd (snd (acme_res_chkorder e ctx errmsg))) = Some (last (replay_nonces hs))
       \<and> (\<exists>r m g' c. acme_res_certificate e g ctx errmsg = Some (r, m, g', c)
            \<and> nonce c = Some (last (replay_nonces hs)))
       \<and> (bad_status h = False \<longrightarrow>
            (\<exists>m c. acme_nonce ctx errmsg = Some (0, m, c)
               \<and> nonce c = Some (last (replay_nonces hs))))"
proof -
  note scan = hdr_scan_last [OF assms(4)]
  obtain ret t1 t2 where
    es: "res_error_strings h [Key ''detail''] [Key ''type''] = (ret, t1, t2)"
    by (cases "res_error_strings h [Key ''detail''] [Key ''type'']" rule: prod_cases3)
  have account: "\<exists>r m c. acme_res_account e ctx na errmsg = Some (r, m, c)
            \<and> nonce c = Some (last (replay_nonces hs))"
    using assms es by (simp add: acme_res_account_def Let_def scan)
  have neworder: "\<exists>r m c. acme_res_neworder e ctx errmsg = Some (r, m, c)
            \<and> nonce c = Some (last (replay_nonces hs))"
  proof -
    let ?c1 = "ctx\<lparr>nonce := hdr_scan ''Replay-Nonce'' hs (nonce ctx),
                   ord_url := hdr_scan ''Location'' hs (ord_url ctx)\<rparr>"
    obtain d r m c2 where
      l: "neworder_auths (res_json h) 0 1 errmsg ?c1 = (d, r, m, c2)"
      by (cases "neworder_auths (res_json h) 0 1 errmsg ?c1" rule: prod_cases4)
    have "nonce c2 = Some (last (replay_nonces hs))"
      using neworder_auths_nonce [OF l] by (simp add: scan)
    then show ?thesis
      using assms es l by (simp add: acme_res_neworder_def Let_def scan)
  qed
  have auth: "auth_at ctx p \<noteq> None \<longrightarrow>
            (\<exists>r m c. acme_res_auth e ctx p errmsg = Some (r, m, c)
               \<and> nonce c = Some (last (replay_nonces hs)))"
  proof
    assume valid: "auth_at ctx p \<noteq> None"
    let ?c1 = "ctx\<lparr>nonce := hdr_scan ''Replay-Nonce'' hs (nonce ctx)\<rparr>"
    have "auth_at ?c1 p = auth_at ctx p" by (cases p) (simp_all add: auth_at_def)
    with valid have "auth_at ?c1 p \<noteq> None" by simp
    from auth_challenges_returns [OF this]
    obtain r m a where
      l: "auth_challenges (res_json h) (challenge (cfg ctx)) errmsg 0 (auth_at ?c1 p)
            = Some (r, m, a)"
      by (metis not_None_eq prod_cases3)
    show "\<exists>r m c. acme_res_auth e ctx p errmsg = Some (r, m, c)
               \<and> nonce c = Some (last (replay_nonces hs))"
      using assms es l by (simp add: acme_res_auth_def Let_def scan auth_store_nonce)
  qed
  have challenge: "\<exists>r m c. acme_res_challenge e ctx p errmsg = Some (r, m, c)
            \<and> nonce c = Some (last (replay_nonces hs))"
    using res_challenge_result [OF assms(1) assms(3) assms(2), of p errmsg]
    by (auto simp: scan)
  have finalize: "\<exists>r m c. acme_res_finalize e ctx errmsg = Some (r, m, c)
            \<and> nonce c = Some (last (replay_nonces hs))"
    using assms es by (simp add: acme_res_finalize_def Let_def scan)
  have chkorder: "nonce (snd (snd (acme_res_chkorder e ctx errmsg)))
            = Some (last (replay_nonces hs))"
    using assms es
    by (simp add: acme_res_chkorder_def Let_def scan split: option.splits)
  have certificate: "\<exists>r m g' c. acme_res_certificate e g ctx errmsg = Some (r, m, g', c)
            \<and> nonce c = Some (last (replay_nonces hs))"
  proof -
    let ?c1 = "ctx\<lparr>nonce := hdr_scan ''Replay-Nonce'' hs (nonce ctx)\<rparr>"
    let ?c2 = "?c1\<lparr>store := set_key None (store ?c1)\<rparr>"
    obtain r pm d where
      lp: "load_pem e (path (store ?c2)) (res_buf h) (data (store ?c2)) = (r, pm, d)"
      by (cases "load_pem e (path (store ?c2)) (res_buf h) (data (store ?c2))"
            rule: prod_cases3)
    let ?c3 = "?c2\<lparr>store := (store ?c2)\<lparr>data := d\<rparr>\<rparr>"
    let ?m3 = "case pm of None \<Rightarrow> errmsg | Some x \<Rightarrow> Some x"
    obtain r2 m4 g2 c5 where
      up: "acme_update_certificate e g (?c3\<lparr>store := set_key (key (data (store ?c1))) (store ?c3)\<rparr>)
             ?m3 = (r2, m4, g2, c5)"
      by (cases "acme_update_certificate e g
                   (?c3\<lparr>store := set_key (key (data (store ?c1))) (store ?c3)\<rparr>) ?m3"
            rule: prod_cases4)
    have "nonce c5 = Some (last (replay_nonces hs))"
      using update_certificate_nonce [OF up] by (simp add: scan)
    then show ?thesis
      using assms es lp up by (simp add: acme_res_certificate_def Let_def scan)
  qed
  have newnonce: "bad_status h = False \<longrightarrow>
            (\<exists>m c. acme_nonce ctx errmsg = Some (0, m, c)
               \<and> nonce c = Some (last (replay_nonces hs)))"
    using assms by (simp add: acme_nonce_def scan)
  show ?thesis
    using account neworder auth challenge finalize chkorder certificate newnonce by blast
qed

theorem replay_nonce_replaces_nonce_witness:
  "map_option res_status (hc ex_badnonce_ctx) = Some 400
   \<and> nonce ex_badnonce_ctx = Some ''nonce-1''
   \<and> (\<exists>r m c. acme_res_neworder ex_env ex_badnonce_ctx None = Some (r, m, c)
         \<and> nonce c = Some ''nonce-2'')"
proof -
  let ?h = "\<lparr>req_meth = HTTP_METH_POST, req_url = Some ''https://acme.example/x'',
             req_hdrs = None, req_payload = None, res_status = 400,
             res_hdrs = Some [(''Replay-Nonce'', ''nonce-2'')], res_buf = ''body'',
             res_json = Some (JObj [(''type'', JStr ''urn:ietf:params:acme:error:badNonce''),
                                    (''detail'', JStr ''bad nonce'')])\<rparr>"
  have a: "hc ex_badnonce_ctx = Some ?h"
    by (simp add: ex_badnonce_ctx_def ex_defs)
  have b: "res_hdrs ?h = Some [(''Replay-Nonce'', ''nonce-2'')]" by simp
  have c: "trash_ok ex_env" by (simp add: ex_env_def)
  have v: "replay_nonces [(''Replay-Nonce'', ''nonce-2'')] = [''nonce-2'']"
    by (simp add: replay_nonces_def)
  have d: "replay_nonces [(''Replay-Nonce'', ''nonce-2'')] \<noteq> []"
    by (simp add: v)
  have s: "map_option res_status (hc ex_badnonce_ctx) = Some 400"
    "nonce ex_badnonce_ctx = Some ''nonce-1''"
    by (simp_all add: ex_badnonce_ctx_def ex_defs)
  have n: "\<exists>r m c. acme_res_neworder ex_env ex_badnonce_ctx None = Some (r, m, c)
             \<and> nonce c = Some (last (replay_nonces [(''Replay-Nonce'', ''nonce-2'')]))"
    using replay_nonce_replaces_nonce [OF a b c d, where errmsg = None] by blast
  show ?thesis using s n by (simp add: v)
qed

section \<open>The retry budget\<close>

text \<open>
  C5 (the code departs from the claim). A newOrder response with an error status whose
  error object has an empty \<open>type\<close>: the handler takes its error exit, leaves the error
  message, and returns the length of that string, 0, which \<open>acme_process\<close> reads as
  success. The failed step consumes no retry, logs nothing and is not run again: the task
  goes on to state AUTH with its budget untouched, whatever \<open>ACME_RETRY\<close> is.
\<close>

theorem failed_step_returning_zero_keeps_budget:
  assumes "state ctx = ACME_NEWORDER"
    and "http_state ctx = ACME_HTTP_RES"
    and "hc ctx = Some h"
    and "trash_ok e"
    and "res_hdrs h = Some hs"
    and "bad_status h"
    and "mjson_get_string (res_json h) [Key ''type''] = Some []"
  shows "\<exists>c r. acme_res_neworder e ctx None
                  = Some (0, Some (''invalid HTTP status code '' @ string_of_int (res_status h)
                                    @ '' when getting newOrder URL''), c)
               \<and> acme_process R e g ctx = Some r
               \<and> task_alive r \<and> notices r = []
               \<and> state (ctx_out r) = ACME_AUTH
               \<and> http_state (ctx_out r) = ACME_HTTP_REQ
               \<and> retries (ctx_out r) = retries ctx"
proof -
  define c where
    "c = ctx\<lparr>nonce := hdr_scan ''Replay-Nonce'' hs (nonce ctx),
              ord_url := hdr_scan ''Location'' hs (ord_url ctx), hc := None\<rparr>"
  have handler: "acme_res_neworder e ctx None
      = Some (0, Some (''invalid HTTP status code '' @ string_of_int (res_status h)
                        @ '' when getting newOrder URL''), c)"
    using assms
    by (simp add: acme_res_neworder_def res_error_strings_def mjson_ret_def
                  invalid_status_msg_def Let_def c_def)
  have frame: "retries c = retries ctx" by (simp add: c_def)
  have "acme_process R e g ctx =
      Some \<lparr>task_alive = True, task_woken = True, notices = [], globals_out = g,
            ctx_out = c\<lparr>http_state := ACME_HTTP_REQ, state := ACME_AUTH\<rparr>\<rparr>"
    using assms(1) assms(2)
    by (simp add: acme_process_def acme_switch_def after_res_def handler)
  with handler frame show ?thesis by simp
qed

theorem failed_step_returning_zero_keeps_budget_witness:
  "map_option res_status (hc ex_emptytype_ctx) = Some 400
   \<and> retries ex_emptytype_ctx = 1
   \<and> (\<exists>r. acme_process 1 ex_env ex_globals ex_emptytype_ctx = Some r
          \<and> task_alive r \<and> notices r = [] \<and> state (ctx_out r) = ACME_AUTH
          \<and> retries (ctx_out r) = 1)"
proof -
  let ?h = "\<lparr>req_meth = HTTP_METH_POST, req_url = Some ''https://acme.example/x'',
             req_hdrs = None, req_payload = None, res_status = 400,
             res_hdrs = Some [(''Replay-Nonce'', ''nonce-2'')], res_buf = ''body'',
             res_json = Some (JObj [(''type'', JStr []), (''detail'', JStr ''bad request'')])\<rparr>"
  have a: "state ex_emptytype_ctx = ACME_NEWORDER" "http_state ex_emptytype_ctx = ACME_HTTP_RES"
    "hc ex_emptytype_ctx = Some ?h" "trash_ok ex_env"
    "res_hdrs ?h = Some [(''Replay-Nonce'', ''nonce-2'')]" "bad_status ?h"
    "mjson_get_string (res_json ?h) [Key ''type''] = Some []"
    by (simp_all add: ex_emptytype_ctx_def ex_defs bad_status_def mjson_get_string_def
                      mjson_find_def)
  have s: "map_option res_status (hc ex_emptytype_ctx) = Some 400"
    "retries ex_emptytype_ctx = 1"
    by (simp_all add: ex_emptytype_ctx_def ex_defs)
  have p: "\<exists>r. acme_process 1 ex_env ex_globals ex_emptytype_ctx = Some r
          \<and> task_alive r \<and> notices r = [] \<and> state (ctx_out r) = ACME_AUTH
          \<and> retries (ctx_out r) = retries ex_emptytype_ctx"
    using failed_step_returning_zero_keeps_budget [OF a, of 1 ex_globals]
    by (elim exE conjE) blast
  show ?thesis using s p by simp
qed

end
